theory Spec2Isabelle
  imports Complex_Main "HOL-Library.Sublist"
begin

section \<open>JavaScript values\<close>

text \<open>
  The values \<^verbatim>\<open>dao.js\<close> handles are JSON-like: documents are plain objects whose
  fields hold strings, numbers and further JSON. An object is the list of its own
  properties in insertion order. Numbers are the finite numbers, as rationals
  (\<^verbatim>\<open>NaN\<close> and the infinities are left out). Functions, dates, getters, frozen
  objects and inherited properties are outside the model.
\<close>

datatype jsval =
    JUndefined
  | JNull
  | JBool bool
  | JNum rat
  | JStr string
  | JArr "jsval list"
  | JObj "(string \<times> jsval) list"

fun typeof :: "jsval \<Rightarrow> string" where
  "typeof JUndefined = ''undefined''"
| "typeof JNull = ''object''"
| "typeof (JBool b) = ''boolean''"
| "typeof (JNum r) = ''number''"
| "typeof (JStr s) = ''string''"
| "typeof (JArr xs) = ''object''"
| "typeof (JObj fs) = ''object''"

text \<open>The truth value of a condition: \<^verbatim>\<open>assert(v)\<close>, \<^verbatim>\<open>!v\<close>, \<^verbatim>\<open>v ? a : b\<close>.\<close>

fun truthy :: "jsval \<Rightarrow> bool" where
  "truthy JUndefined = False"
| "truthy JNull = False"
| "truthy (JBool b) = b"
| "truthy (JNum r) = (r \<noteq> 0)"
| "truthy (JStr s) = (s \<noteq> [])"
| "truthy (JArr xs) = True"
| "truthy (JObj fs) = True"

text \<open>Reading and writing the own properties of a plain object.\<close>

definition lookup :: "(string \<times> jsval) list \<Rightarrow> string \<Rightarrow> jsval" where
  "lookup fs k = (case map_of fs k of None \<Rightarrow> JUndefined | Some v \<Rightarrow> v)"

fun put :: "string \<Rightarrow> jsval \<Rightarrow> (string \<times> jsval) list \<Rightarrow> (string \<times> jsval) list" where
  "put k v [] = [(k, v)]"
| "put k v (p # ps) = (if fst p = k then (k, v) # ps else p # put k v ps)"

section \<open>Errors and effects\<close>

text \<open>
  \<^verbatim>\<open>assert(cond, msg)\<close> throws an \<^verbatim>\<open>AssertionError\<close> carrying \<^verbatim>\<open>msg\<close>; reading
  or writing a property of \<^verbatim>\<open>null\<close> or \<^verbatim>\<open>undefined\<close> throws a \<^verbatim>\<open>TypeError\<close>; an
  error of the store is passed on as it is. The error kinds of the specification
  are names for the assertion messages:
  \<^item> InvalidDocument: \<^verbatim>\<open>invalid document\<close>;
  \<^item> AlreadyExists: \<^verbatim>\<open>document may already exist\<close>;
  \<^item> IdentityMismatch: \<^verbatim>\<open>document id mismatch\<close>;
  \<^item> PreconditionFailed: \<^verbatim>\<open>document must already exist\<close>;
  \<^item> NotUnique: \<^verbatim>\<open>key is not unique\<close>;
  \<^item> InvalidArgument: \<^verbatim>\<open>bad document id\<close>, \<^verbatim>\<open>bad document\<close>, \<^verbatim>\<open>invalid view\<close>,
    \<^verbatim>\<open>invalid key\<close>, \<^verbatim>\<open>bad user name\<close>, \<^verbatim>\<open>invalid user name\<close>.
  \<^verbatim>\<open>Unsupported\<close> marks the one step the value model cannot follow (a named
  property written to an array).
\<close>

datatype store_error = StoreErr (statusCode: "nat option") (reason: string)

datatype error =
    AssertionError string
  | TypeError
  | StoreError store_error
  | Unsupported

text \<open>
  A method is a function from the state it runs in to its outcome (an error thrown,
  or a value returned) and the state it leaves. An \<^verbatim>\<open>async\<close> method that throws
  rejects its promise with the error; an awaited call is one step.
\<close>

type_synonym ('a, 'st) prog = "'st \<Rightarrow> (error + 'a) \<times> 'st"

definition return :: "'a \<Rightarrow> ('a, 'st) prog" where
  "return x st = (Inr x, st)"

definition throw :: "error \<Rightarrow> ('a, 'st) prog" where
  "throw e st = (Inl e, st)"

definition seq :: "('a, 'st) prog \<Rightarrow> ('a \<Rightarrow> ('b, 'st) prog) \<Rightarrow> ('b, 'st) prog" where
  "seq m f st = (case m st of (Inl e, st') \<Rightarrow> (Inl e, st') | (Inr x, st') \<Rightarrow> f x st')"

definition catch :: "('a, 'st) prog \<Rightarrow> (error \<Rightarrow> ('a, 'st) prog) \<Rightarrow> ('a, 'st) prog" where
  "catch m h st = (case m st of (Inl e, st') \<Rightarrow> h e st' | (Inr x, st') \<Rightarrow> (Inr x, st'))"

definition lift :: "error + 'a \<Rightarrow> ('a, 'st) prog" where
  "lift r st = (r, st)"

definition assert :: "bool \<Rightarrow> string \<Rightarrow> (unit, 'st) prog" where
  "assert c msg = (if c then return () else throw (AssertionError msg))"

text \<open>
  \<^verbatim>\<open>assert(typeof v === 'string' && v, msg)\<close>: the value that passes is a string
  with at least one character, handed on for the template literal that follows.
\<close>

definition assert_string :: "jsval \<Rightarrow> string \<Rightarrow> (string, 'st) prog" where
  "assert_string v msg =
     (case v of
        JStr s \<Rightarrow> if typeof v = ''string'' \<and> truthy v then return s
                  else throw (AssertionError msg)
      | _ \<Rightarrow> throw (AssertionError msg))"

text \<open>\<^verbatim>\<open>doc.k\<close>, for the field names the code reads.\<close>

fun get_prop :: "jsval \<Rightarrow> string \<Rightarrow> error + jsval" where
  "get_prop JUndefined k = Inl TypeError"
| "get_prop JNull k = Inl TypeError"
| "get_prop (JObj fs) k = Inr (lookup fs k)"
| "get_prop v k = Inr JUndefined"

text \<open>\<^verbatim>\<open>doc.k = v\<close>, in strict mode (a class body is strict).\<close>

fun set_prop :: "jsval \<Rightarrow> string \<Rightarrow> jsval \<Rightarrow> error + jsval" where
  "set_prop (JObj fs) k v = Inr (JObj (put k v fs))"
| "set_prop (JArr xs) k v = Inl Unsupported"
| "set_prop d k v = Inl TypeError"

text \<open>
  The own enumerable properties an object spread \<^verbatim>\<open>{...v}\<close> copies: the fields of
  an object, the elements of an array and the characters of a string under their
  indices, nothing for the other values.
\<close>

function dec :: "nat \<Rightarrow> string" where
  "dec n = (if n < 10 then [''0123456789'' ! n]
            else dec (n div 10) @ [''0123456789'' ! (n mod 10)])"
  by pat_completeness auto
termination
  by (relation "measure id") auto

declare dec.simps [simp del]

fun own_props :: "jsval \<Rightarrow> (string \<times> jsval) list" where
  "own_props (JObj fs) = fs"
| "own_props (JArr xs) = zip (map dec [0..<length xs]) xs"
| "own_props (JStr s) = zip (map dec [0..<length s]) (map (\<lambda>c. JStr [c]) s)"
| "own_props v = []"

definition spread :: "(string \<times> jsval) list \<Rightarrow> (string \<times> jsval) list \<Rightarrow> (string \<times> jsval) list" where
  "spread target src = foldl (\<lambda>acc kv. put (fst kv) (snd kv) acc) target src"

section \<open>Schema validation\<close>

text \<open>
  The constructor registers two schemas with a \<^verbatim>\<open>jsonschema\<close> validator, and the
  class carries the document schema that refers to them. The library is not part
  of the repository; the model follows it for the keywords these schemas use:
  \<^verbatim>\<open>type\<close> is not checked on an undefined instance, \<^verbatim>\<open>minLength\<close> and
  \<^verbatim>\<open>pattern\<close> only on strings, \<^verbatim>\<open>properties\<close> and \<^verbatim>\<open>required\<close> only on plain
  objects, and a required property is missing when it reads as undefined. The
  regular-expression match behind \<^verbatim>\<open>pattern\<close> belongs to the platform and is a
  parameter (\<open>re_test p s\<close> for \<^verbatim>\<open>new RegExp(p).test(s)\<close>).
\<close>

record schema_def =
  sch_type :: string
  sch_minLength :: "nat option"
  sch_pattern :: "string option"

record doc_schema =
  doc_type :: string
  properties :: "(string \<times> schema_def) list"
  required :: "string list"
  additionalProperties :: bool

datatype verror = VError string string

record validator_result =
  errors :: "verror list"

definition valid :: "validator_result \<Rightarrow> bool" where
  "valid vr = (errors vr = [])"

definition test_type :: "string \<Rightarrow> jsval \<Rightarrow> bool" where
  "test_type t v =
     (if t = ''string'' then typeof v = ''string''
      else if t = ''number'' then typeof v = ''number''
      else if t = ''integer'' then (case v of JNum r \<Rightarrow> of_int \<lfloor>r\<rfloor> = r | _ \<Rightarrow> False)
      else if t = ''boolean'' then typeof v = ''boolean''
      else if t = ''array'' then (case v of JArr xs \<Rightarrow> True | _ \<Rightarrow> False)
      else if t = ''null'' then v = JNull
      else if t = ''object'' then (case v of JObj fs \<Rightarrow> True | _ \<Rightarrow> False)
      else True)"

definition check_type :: "string \<Rightarrow> string \<Rightarrow> jsval \<Rightarrow> verror list" where
  "check_type prop t v =
     (if v = JUndefined \<or> test_type t v then [] else [VError prop ''type''])"

definition check_minLength :: "string \<Rightarrow> nat \<Rightarrow> jsval \<Rightarrow> verror list" where
  "check_minLength prop n v =
     (case v of
        JStr s \<Rightarrow> if length s < n then [VError prop ''minLength''] else []
      | _ \<Rightarrow> [])"

definition check_pattern :: "(string \<Rightarrow> string \<Rightarrow> bool) \<Rightarrow> string \<Rightarrow> string \<Rightarrow> jsval \<Rightarrow> verror list" where
  "check_pattern re prop p v =
     (case v of
        JStr s \<Rightarrow> if re p s then [] else [VError prop ''pattern'']
      | _ \<Rightarrow> [])"

definition validateSchema :: "(string \<Rightarrow> string \<Rightarrow> bool) \<Rightarrow> string \<Rightarrow> schema_def \<Rightarrow> jsval \<Rightarrow> verror list" where
  "validateSchema re prop sch v =
     check_type prop (sch_type sch) v
     @ (case sch_minLength sch of None \<Rightarrow> [] | Some n \<Rightarrow> check_minLength prop n v)
     @ (case sch_pattern sch of None \<Rightarrow> [] | Some p \<Rightarrow> check_pattern re prop p v)"

definition validateProperties :: "(string \<Rightarrow> string \<Rightarrow> bool) \<Rightarrow> (string \<times> schema_def) list \<Rightarrow> jsval \<Rightarrow> verror list" where
  "validateProperties re props doc =
     (case doc of
        JObj fs \<Rightarrow> concat (map (\<lambda>ps. validateSchema re (fst ps) (snd ps) (lookup fs (fst ps))) props)
      | _ \<Rightarrow> [])"

definition validateRequired :: "string list \<Rightarrow> jsval \<Rightarrow> verror list" where
  "validateRequired req doc =
     (case doc of
        JObj fs \<Rightarrow> concat (map (\<lambda>n. if lookup fs n = JUndefined then [VError n ''required''] else []) req)
      | _ \<Rightarrow> [])"

definition validateAdditionalProperties :: "bool \<Rightarrow> (string \<times> schema_def) list \<Rightarrow> jsval \<Rightarrow> verror list" where
  "validateAdditionalProperties allowed props doc =
     (case doc of
        JObj fs \<Rightarrow> if allowed then []
                  else concat (map (\<lambda>kv. if fst kv \<in> set (map fst props) then []
                                          else [VError (fst kv) ''additionalProperties'']) fs)
      | _ \<Rightarrow> [])"

definition validator_validate :: "(string \<Rightarrow> string \<Rightarrow> bool) \<Rightarrow> jsval \<Rightarrow> doc_schema \<Rightarrow> validator_result" where
  "validator_validate re doc sch =
     \<lparr>errors =
        check_type ''instance'' (doc_type sch) doc
        @ validateProperties re (properties sch) doc
        @ validateRequired (required sch) doc
        @ validateAdditionalProperties (additionalProperties sch) (properties sch) doc\<rparr>"

section \<open>The store\<close>

text \<open>
  The database handle is the caller's (a \<^verbatim>\<open>nano\<close> client). It is a parameter:
  four operations over a store state of any type, each answering with a store
  error or a result. A world is the store together with the log of the calls made
  to it so far.
\<close>

record insert_result =
  res_id :: jsval
  res_rev :: jsval

record view_row =
  row_key :: jsval
  row_value :: jsval
  row_doc :: jsval

record view_result =
  rows :: "view_row list"

record 's db_handle =
  db_insert :: "jsval \<Rightarrow> 's \<Rightarrow> (store_error + insert_result) \<times> 's"
  db_get :: "string \<Rightarrow> 's \<Rightarrow> (store_error + jsval) \<times> 's"
  db_destroy :: "jsval \<Rightarrow> jsval \<Rightarrow> 's \<Rightarrow> (store_error + jsval) \<times> 's"
  db_partitionedView :: "string \<Rightarrow> string \<Rightarrow> jsval \<Rightarrow> jsval \<Rightarrow> 's \<Rightarrow> (store_error + view_result) \<times> 's"

datatype store_call =
    Insert jsval
  | Get string
  | Destroy jsval jsval
  | PartitionedView string string jsval jsval

record 's world =
  store :: 's
  calls :: "store_call list"

definition await_store :: "store_call \<Rightarrow> ('s \<Rightarrow> (store_error + 'a) \<times> 's) \<Rightarrow> ('a, 's world) prog" where
  "await_store c f w =
     (case f (store w) of
        (Inl e, s') \<Rightarrow> (Inl (StoreError e), \<lparr>store = s', calls = calls w @ [c]\<rparr>)
      | (Inr x, s') \<Rightarrow> (Inr x, \<lparr>store = s', calls = calls w @ [c]\<rparr>))"

text \<open>\<^verbatim>\<open>err.statusCode\<close> of a caught error.\<close>

fun status_of :: "error \<Rightarrow> nat option" where
  "status_of (StoreError e) = statusCode e"
| "status_of e = None"

section \<open>The DAO class\<close>

text \<open>
  A DAO holds its type, the database handle and the validator. The constructor
  only asserts the shapes of its arguments (the type a string, the handle an
  object with a \<^verbatim>\<open>replicate\<close> function); a record of type \<open>dao\<close> is what a
  construction that passes them yields. \<^verbatim>\<open>uuid\<close> draws a random token and is left
  out.
\<close>

record 's dao =
  dao_type :: string
  db :: "'s db_handle"
  re_test :: "string \<Rightarrow> string \<Rightarrow> bool"

definition NonEmptyString :: schema_def where
  "NonEmptyString = \<lparr>sch_type = ''string'', sch_minLength = Some 1, sch_pattern = None\<rparr>"

definition DocumentID :: "'s dao \<Rightarrow> schema_def" where
  "DocumentID dao =
     \<lparr>sch_type = ''string'', sch_minLength = None,
      sch_pattern = Some (''^'' @ dao_type dao @ '':'')\<rparr>"

definition schema :: "'s dao \<Rightarrow> doc_schema" where
  "schema dao =
     \<lparr>doc_type = ''object'',
      properties =
        [(''_id'', DocumentID dao),
         (''_rev'', NonEmptyString),
         (''c_by'', NonEmptyString),
         (''c_at'', \<lparr>sch_type = ''integer'', sch_minLength = None, sch_pattern = None\<rparr>),
         (''m_by'', NonEmptyString),
         (''m_at'', \<lparr>sch_type = ''integer'', sch_minLength = None, sch_pattern = None\<rparr>)],
      required = [''_id'', ''c_by'', ''c_at'', ''m_by'', ''m_at''],
      additionalProperties = True\<rparr>"

definition validate :: "'s dao \<Rightarrow> jsval \<Rightarrow> error + validator_result" where
  "validate dao doc =
     (if typeof doc = ''object''
      then Inr (validator_validate (re_test dao) doc (schema dao))
      else Inl (AssertionError ''bad document''))"

text \<open>
  In \<^verbatim>\<open>create\<close> the literal \<^verbatim>\<open>{ _rev: res.rev, ...doc }\<close> starts from \<^verbatim>\<open>_rev\<close> and
  writes the document's own properties over it; in \<^verbatim>\<open>update\<close> the literal
  \<^verbatim>\<open>{ ...doc, _rev: res.rev }\<close> copies the document's own properties and then sets
  \<^verbatim>\<open>_rev\<close>.
\<close>

definition create :: "'s dao \<Rightarrow> jsval \<Rightarrow> (jsval, 's world) prog" where
  "create dao doc =
     seq (lift (validate dao doc)) (\<lambda>vr.
     seq (assert (valid vr) ''invalid document'') (\<lambda>_.
     seq (lift (get_prop doc ''_rev'')) (\<lambda>rev.
     seq (assert (\<not> truthy rev) ''document may already exist'') (\<lambda>_.
     seq (await_store (Insert doc) (db_insert (db dao) doc)) (\<lambda>res.
     return (JObj (spread [(''_rev'', res_rev res)] (own_props doc))))))))"

definition retrieve :: "'s dao \<Rightarrow> jsval \<Rightarrow> (jsval, 's world) prog" where
  "retrieve dao id' =
     seq (assert_string id' ''bad document id'') (\<lambda>s.
     catch (await_store (Get (dao_type dao @ '':'' @ s)) (db_get (db dao) (dao_type dao @ '':'' @ s)))
           (\<lambda>err. if status_of err \<noteq> Some 404 then throw err else return JNull))"

definition update :: "'s dao \<Rightarrow> jsval \<Rightarrow> jsval \<Rightarrow> (jsval, 's world) prog" where
  "update dao id' doc =
     seq (assert_string id' ''bad document id'') (\<lambda>s.
     seq (lift (validate dao doc)) (\<lambda>vr.
     seq (assert (valid vr) ''invalid document'') (\<lambda>_.
     seq (lift (get_prop doc ''_id'')) (\<lambda>doc_id.
     seq (assert (doc_id = JStr (dao_type dao @ '':'' @ s)) ''document id mismatch'') (\<lambda>_.
     seq (lift (get_prop doc ''_rev'')) (\<lambda>rev.
     seq (assert (truthy rev) ''document must already exist'') (\<lambda>_.
     seq (await_store (Insert doc) (db_insert (db dao) doc)) (\<lambda>res.
     return (JObj (put ''_rev'' (res_rev res) (own_props doc)))))))))))"

definition delete :: "'s dao \<Rightarrow> jsval \<Rightarrow> jsval \<Rightarrow> (jsval, 's world) prog" where
  "delete dao id' doc =
     seq (assert_string id' ''bad document id'') (\<lambda>s.
     seq (assert (typeof doc = ''object'') ''bad document'') (\<lambda>_.
     seq (lift (get_prop doc ''_id'')) (\<lambda>doc_id.
     seq (assert (typeof doc_id = ''string'' \<and> truthy doc_id) ''invalid document'') (\<lambda>_.
     seq (assert (doc_id = JStr (dao_type dao @ '':'' @ s)) ''document id mismatch'') (\<lambda>_.
     seq (lift (get_prop doc ''_rev'')) (\<lambda>rev.
     seq (assert (truthy rev) ''document must already exist'') (\<lambda>_.
     await_store (Destroy doc_id rev) (db_destroy (db dao) doc_id rev))))))))"

text \<open>
  The view methods take the key as a rest parameter, which is always an array:
  \<^verbatim>\<open>Array.isArray(key)\<close> holds, and the key is the list of the arguments given.
  The rows of an answer are a list, so the unnamed assertion
  \<^verbatim>\<open>assert(Array.isArray(res.rows))\<close> of \<^verbatim>\<open>count\<close> holds too.
\<close>

definition partitionedView :: "'s dao \<Rightarrow> jsval \<Rightarrow> jsval \<Rightarrow> (view_result, 's world) prog" where
  "partitionedView dao viewName opts =
     await_store (PartitionedView (dao_type dao) (dao_type dao) viewName opts)
       (db_partitionedView (db dao) (dao_type dao) (dao_type dao) viewName opts)"

definition list :: "'s dao \<Rightarrow> jsval \<Rightarrow> jsval \<Rightarrow> (jsval, 's world) prog" where
  "list dao viewName opts0 =
     (let opts = (if opts0 = JUndefined then JObj [] else opts0) in
      seq (assert (typeof viewName = ''string'' \<and> truthy viewName) ''invalid view'') (\<lambda>_.
      seq (assert (typeof opts = ''object'') ''invalid options'') (\<lambda>_.
      let opts' = spread [(''reduce'', JBool False), (''include_docs'', JBool True)] (own_props opts) in
      seq (partitionedView dao viewName (JObj opts')) (\<lambda>res.
      return (JArr (map (\<lambda>row. if truthy (lookup opts' ''include_docs'') then row_doc row
                                else row_value row) (rows res)))))))"

definition findOne :: "'s dao \<Rightarrow> jsval \<Rightarrow> jsval list \<Rightarrow> (jsval, 's world) prog" where
  "findOne dao viewName key =
     seq (assert (typeof viewName = ''string'' \<and> truthy viewName) ''invalid view'') (\<lambda>_.
     seq (assert (length key > 0) ''invalid key'') (\<lambda>_.
     seq (partitionedView dao viewName
            (JObj [(''reduce'', JBool False), (''include_docs'', JBool True),
                   (''limit'', JNum 2), (''key'', JArr key)])) (\<lambda>res.
     seq (assert (length (rows res) \<le> 1) ''key is not unique'') (\<lambda>_.
     return (case rows res of [] \<Rightarrow> JNull | r # _ \<Rightarrow> row_doc r)))))"

definition exists :: "'s dao \<Rightarrow> jsval \<Rightarrow> jsval list \<Rightarrow> (jsval, 's world) prog" where
  "exists dao viewName key =
     seq (assert (typeof viewName = ''string'' \<and> truthy viewName) ''invalid view'') (\<lambda>_.
     seq (assert (length key > 0) ''invalid key'') (\<lambda>_.
     seq (partitionedView dao viewName
            (JObj [(''reduce'', JBool False), (''include_docs'', JBool False),
                   (''limit'', JNum 1), (''key'', JArr key)])) (\<lambda>res.
     return (JBool (length (rows res) \<noteq> 0)))))"

definition count :: "'s dao \<Rightarrow> jsval \<Rightarrow> jsval list \<Rightarrow> (jsval, 's world) prog" where
  "count dao viewName key =
     seq (assert (typeof viewName = ''string'' \<and> truthy viewName) ''invalid view'') (\<lambda>_.
     seq (partitionedView dao viewName
            (JObj [(''reduce'', JBool True),
                   (''key'', if length key \<noteq> 0 then JArr key else JUndefined)])) (\<lambda>res.
     return (case rows res of [] \<Rightarrow> JNum 0 | r # _ \<Rightarrow> row_value r)))"

section \<open>The static function touch\<close>

text \<open>
  \<^verbatim>\<open>touch\<close> assigns to fields of the object it is given, so here the argument is
  an address in a heap of the caller's values and the function returns an address.
  \<^verbatim>\<open>Date.now()\<close> reads a clock: the environment holds the readings to come, in
  milliseconds, and each call takes the next one. For the integer readings of the
  clock \<^verbatim>\<open>Math.floor(t / 1000)\<close> is the integer quotient rounded down.
\<close>

record env =
  heap :: "nat \<Rightarrow> jsval"
  clock :: "nat \<Rightarrow> int"

definition Date_now :: "(int, env) prog" where
  "Date_now e = (Inr (clock e 0), e\<lparr>clock := (\<lambda>n. clock e (Suc n))\<rparr>)"

definition load :: "nat \<Rightarrow> (jsval, env) prog" where
  "load a e = (Inr (heap e a), e)"

definition load_prop :: "nat \<Rightarrow> string \<Rightarrow> (jsval, env) prog" where
  "load_prop a k e = (get_prop (heap e a) k, e)"

definition store_prop :: "nat \<Rightarrow> string \<Rightarrow> jsval \<Rightarrow> (unit, env) prog" where
  "store_prop a k v e =
     (case set_prop (heap e a) k v of
        Inl err \<Rightarrow> (Inl err, e)
      | Inr d \<Rightarrow> (Inr (), e\<lparr>heap := (heap e)(a := d)\<rparr>))"

definition epoch_seconds :: "int \<Rightarrow> jsval" where
  "epoch_seconds t = JNum (of_int (t div 1000))"

definition touch :: "nat \<Rightarrow> jsval \<Rightarrow> (nat, env) prog" where
  "touch doc userName =
     seq (load doc) (\<lambda>d.
     seq (assert (typeof d = ''object'') ''bad document'') (\<lambda>_.
     seq (assert (typeof userName = ''string'') ''bad user name'') (\<lambda>_.
     seq (assert (truthy userName) ''invalid user name'') (\<lambda>_.
     seq (load_prop doc ''c_by'') (\<lambda>c_by.
     seq (if typeof c_by = ''undefined''
          then seq (store_prop doc ''c_by'' userName) (\<lambda>_.
               seq Date_now (\<lambda>t.
               store_prop doc ''c_at'' (epoch_seconds t)))
          else return ()) (\<lambda>_.
     seq (store_prop doc ''m_by'' userName) (\<lambda>_.
     seq Date_now (\<lambda>t.
     seq (store_prop doc ''m_at'' (epoch_seconds t)) (\<lambda>_.
     return doc)))))))))"

section \<open>A store and documents to run the methods on\<close>

text \<open>
  The tests of the repository use a DAO of type \<^verbatim>\<open>WIDGET\<close> over a database that
  holds a few known documents. The store below answers in the same manner, from a
  fixed list of view rows: a reduced query counts them, any other query returns
  them up to its limit. For the type \<^verbatim>\<open>WIDGET\<close> the pattern of the document id is
  the anchored literal \<^verbatim>\<open>^WIDGET:\<close>, which matches the strings that start with
  \<^verbatim>\<open>WIDGET:\<close>.
\<close>

definition anchored_literal :: "string \<Rightarrow> string \<Rightarrow> bool" where
  "anchored_literal p s = (case p of [] \<Rightarrow> True | c # lit \<Rightarrow> c = CHR ''^'' \<and> prefix lit s)"

definition view_answer :: "view_row list \<Rightarrow> jsval \<Rightarrow> view_row list" where
  "view_answer M opts =
     (if truthy (lookup (own_props opts) ''reduce'')
      then (if M = [] then []
            else [\<lparr>row_key = JNull, row_value = JNum (of_nat (length M)), row_doc = JUndefined\<rparr>])
      else (case lookup (own_props opts) ''limit'' of
              JNum r \<Rightarrow> take (nat \<lfloor>r\<rfloor>) M
            | _ \<Rightarrow> M))"

definition known_1 :: jsval where
  "known_1 = JObj [(''_id'', JStr ''WIDGET:known-1''), (''_rev'', JStr ''1-abc''),
                   (''name'', JStr ''known-1''), (''status'', JStr ''ACTIVE''),
                   (''c_by'', JStr ''admin''), (''c_at'', JNum 1700000000),
                   (''m_by'', JStr ''admin''), (''m_at'', JNum 1700000000)]"

definition known_2 :: jsval where
  "known_2 = JObj [(''_id'', JStr ''WIDGET:known-2''), (''_rev'', JStr ''1-def''),
                   (''name'', JStr ''known-2''), (''status'', JStr ''ACTIVE''),
                   (''c_by'', JStr ''admin''), (''c_at'', JNum 1700000000),
                   (''m_by'', JStr ''admin''), (''m_at'', JNum 1700000000)]"

definition test_store :: "view_row list \<Rightarrow> unit db_handle" where
  "test_store M =
     \<lparr>db_insert = (\<lambda>doc s.
        if lookup (own_props doc) ''_id'' = JStr ''WIDGET:taken''
        then (Inl (StoreErr (Some 409) ''conflict''), s)
        else (Inr \<lparr>res_id = lookup (own_props doc) ''_id'', res_rev = JStr ''2-new''\<rparr>, s)),
      db_get = (\<lambda>i s.
        if i = ''WIDGET:known-1'' then (Inr known_1, s)
        else if i = ''WIDGET:broken'' then (Inl (StoreErr (Some 500) ''internal''), s)
        else (Inl (StoreErr (Some 404) ''missing''), s)),
      db_destroy = (\<lambda>i r s. (Inr (JObj [(''ok'', JBool True), (''id'', i), (''rev'', JStr ''3-gone'')]), s)),
      db_partitionedView = (\<lambda>p d v opts s. (Inr \<lparr>rows = view_answer M opts\<rparr>, s))\<rparr>"

definition widget_dao :: "view_row list \<Rightarrow> unit dao" where
  "widget_dao M = \<lparr>dao_type = ''WIDGET'', db = test_store M, re_test = anchored_literal\<rparr>"

definition w0 :: "unit world" where
  "w0 = \<lparr>store = (), calls = []\<rparr>"

definition doc_valid_with_rev :: jsval where
  "doc_valid_with_rev =
     JObj [(''_id'', JStr ''WIDGET:test-with_rev''), (''_rev'', JStr ''xxx-any-value-here''),
           (''c_by'', JStr ''admin''), (''c_at'', JNum 1700000000),
           (''m_by'', JStr ''admin''), (''m_at'', JNum 1700000000)]"

definition doc_invalid_with_rev :: jsval where
  "doc_invalid_with_rev = JObj [(''_rev'', JStr ''1-abc''), (''name'', JStr ''no id'')]"

definition doc_test_1 :: jsval where
  "doc_test_1 =
     JObj [(''_id'', JStr ''WIDGET:test-1''), (''_rev'', JStr ''1-123456789''),
           (''c_by'', JStr ''admin''), (''c_at'', JNum 1700000000),
           (''m_by'', JStr ''admin''), (''m_at'', JNum 1700000000),
           (''test'', JStr ''initial-value'')]"

definition doc_test_1_new :: jsval where
  "doc_test_1_new =
     JObj [(''_id'', JStr ''WIDGET:test-1''),
           (''c_by'', JStr ''admin''), (''c_at'', JNum 1700000000),
           (''m_by'', JStr ''admin''), (''m_at'', JNum 1700000000),
           (''test'', JStr ''initial-value'')]"

definition row_known_1 :: view_row where
  "row_known_1 = \<lparr>row_key = JArr [JStr ''ACTIVE''], row_value = JNum 1, row_doc = known_1\<rparr>"

definition row_known_2 :: view_row where
  "row_known_2 = \<lparr>row_key = JArr [JStr ''ACTIVE''], row_value = JNum 1, row_doc = known_2\<rparr>"

text \<open>
  For \<^verbatim>\<open>touch\<close>: a clock that starts at a given millisecond and advances by one
  millisecond from each reading to the next, and a heap with an empty document
  at address 0 and a known document at address 1.
\<close>

definition clock_from :: "int \<Rightarrow> nat \<Rightarrow> int" where
  "clock_from t n = t + int n"

definition touch_env :: "int \<Rightarrow> env" where
  "touch_env t =
     \<lparr>heap = (\<lambda>a. if a = 0 then JObj [] else if a = 1 then known_1 else JUndefined),
      clock = clock_from t\<rparr>"

text \<open>
  A clock that is set back by four seconds after its second reading, and a heap
  with an empty document at address 0.
\<close>

definition clock_set_back :: "nat \<Rightarrow> int" where
  "clock_set_back n = (if n < 2 then 1700000005000 else 1700000001000)"

definition touch_env_set_back :: env where
  "touch_env_set_back =
     \<lparr>heap = (\<lambda>a. if a = 0 then JObj [] else JUndefined), clock = clock_set_back\<rparr>"

section \<open>Basic facts\<close>

lemma lookup_put: "lookup (put k v fs) k' = (if k' = k then v else lookup fs k')"
  by (induction fs) (auto simp: lookup_def)

lemma seq_return: "seq (return x) f = f x"
  by (simp add: seq_def return_def fun_eq_iff)

lemma seq_throw: "seq (throw e) f = throw e"
  by (simp add: seq_def throw_def fun_eq_iff)

lemma seq_lift_Inr: "seq (lift (Inr x)) f = f x"
  by (simp add: seq_def lift_def fun_eq_iff)

lemma seq_lift_Inl: "seq (lift (Inl e)) f = throw e"
  by (simp add: seq_def lift_def throw_def fun_eq_iff)

lemma seq_assert: "seq (assert c m) f = (if c then f () else throw (AssertionError m))"
  by (simp add: assert_def seq_return seq_throw)

lemma assert_string_iff:
  "assert_string v m = (if typeof v = ''string'' \<and> truthy v then return (case v of JStr s \<Rightarrow> s) else throw (AssertionError m))"
  by (cases v) (simp_all add: assert_string_def)

lemma typeof_string: "typeof v = ''string'' \<longleftrightarrow> (\<exists>s. v = JStr s)"
  by (cases v) simp_all

lemma typeof_undefined: "typeof v = ''undefined'' \<longleftrightarrow> v = JUndefined"
  by (cases v) simp_all

lemma test_type_object: "test_type ''object'' v \<longleftrightarrow> (\<exists>fs. v = JObj fs)"
  by (cases v) (simp_all add: test_type_def)

lemma test_type_string: "test_type ''string'' v \<longleftrightarrow> (\<exists>s. v = JStr s)"
  by (cases v) (simp_all add: test_type_def)

lemma test_type_integer: "test_type ''integer'' v \<longleftrightarrow> (\<exists>r. v = JNum r \<and> of_int \<lfloor>r\<rfloor> = r)"
  by (cases v) (simp_all add: test_type_def)

lemma NonEmptyString_ok:
  "validateSchema re p NonEmptyString v = [] \<longleftrightarrow> v = JUndefined \<or> (\<exists>s. v = JStr s \<and> s \<noteq> [])"
  by (cases v) (simp_all add: validateSchema_def NonEmptyString_def check_type_def check_minLength_def test_type_string)

lemma DocumentID_ok:
  "validateSchema re p (DocumentID dao) v = [] \<longleftrightarrow>
     v = JUndefined \<or> (\<exists>s. v = JStr s \<and> re (''^'' @ dao_type dao @ '':'') s)"
  by (cases v) (simp_all add: validateSchema_def DocumentID_def check_type_def check_pattern_def test_type_string)

lemma integer_ok:
  "validateSchema re p \<lparr>sch_type = ''integer'', sch_minLength = None, sch_pattern = None\<rparr> v = [] \<longleftrightarrow>
     v = JUndefined \<or> (\<exists>r. v = JNum r \<and> of_int \<lfloor>r\<rfloor> = r)"
  by (cases v) (simp_all add: validateSchema_def check_type_def test_type_integer)

lemma concat_map_Nil: "concat (map f xs) = [] \<Longrightarrow> x \<in> set xs \<Longrightarrow> f x = []"
  by (induction xs) auto

lemma check_type_object:
  assumes "typeof doc = ''object''" "check_type p ''object'' doc = []"
  shows "\<exists>fs. doc = JObj fs"
  using assms by (cases doc) (simp_all add: check_type_def test_type_def)

lemma validate_Inr:
  "validate dao doc = Inr vr \<Longrightarrow>
     typeof doc = ''object'' \<and> vr = validator_validate (re_test dao) doc (schema dao)"
  by (cases "typeof doc = ''object''") (simp_all add: validate_def)

lemma doc_type_schema: "doc_type (schema dao) = ''object''"
  by (simp add: schema_def)

lemma valid_parts:
  assumes "validate dao doc = Inr vr" "valid vr"
  shows "\<exists>fs. doc = JObj fs
    \<and> (\<forall>p sch. (p, sch) \<in> set (properties (schema dao)) \<longrightarrow>
           validateSchema (re_test dao) p sch (lookup fs p) = [])
    \<and> (\<forall>n. n \<in> set (required (schema dao)) \<longrightarrow> lookup fs n \<noteq> JUndefined)"
proof -
  from assms(1) have ty: "typeof doc = ''object''"
    and vr: "vr = validator_validate (re_test dao) doc (schema dao)"
    by (simp_all add: validate_Inr)
  from assms(2) have e: "errors (validator_validate (re_test dao) doc (schema dao)) = []"
    by (simp add: valid_def vr)
  then have c: "check_type ''instance'' ''object'' doc = []"
    and p0: "validateProperties (re_test dao) (properties (schema dao)) doc = []"
    and r0: "validateRequired (required (schema dao)) doc = []"
    by (simp_all add: validator_validate_def doc_type_schema)
  from ty c obtain fs where doc: "doc = JObj fs"
    using check_type_object by blast
  have p: "concat (map (\<lambda>ps. validateSchema (re_test dao) (fst ps) (snd ps) (lookup fs (fst ps)))
             (properties (schema dao))) = []"
    using p0 by (simp add: validateProperties_def doc)
  have r: "concat (map (\<lambda>n. if lookup fs n = JUndefined then [VError n ''required''] else [])
             (required (schema dao))) = []"
    using r0 by (simp add: validateRequired_def doc)
  have 1: "validateSchema (re_test dao) p sch (lookup fs p) = []"
    if "(p, sch) \<in> set (properties (schema dao))" for p sch
    using concat_map_Nil [OF p that] by simp
  have 2: "lookup fs n \<noteq> JUndefined" if "n \<in> set (required (schema dao))" for n
    using concat_map_Nil [OF r that] by (simp split: if_splits)
  from doc 1 2 show ?thesis by blast
qed

lemma valid_rev:
  assumes "validate dao doc = Inr vr" "valid vr"
  shows "\<exists>fs. doc = JObj fs \<and>
           (lookup fs ''_rev'' = JUndefined \<or> (\<exists>s. lookup fs ''_rev'' = JStr s \<and> s \<noteq> []))"
proof -
  from valid_parts [OF assms] obtain fs where doc: "doc = JObj fs"
    and p: "\<And>p sch. (p, sch) \<in> set (properties (schema dao)) \<Longrightarrow>
           validateSchema (re_test dao) p sch (lookup fs p) = []"
    by blast
  have "(''_rev'', NonEmptyString) \<in> set (properties (schema dao))"
    by (simp add: schema_def)
  from p [OF this] show ?thesis
    by (simp add: NonEmptyString_ok doc)
qed

lemma validate_invalid_with_rev:
  "validate (widget_dao []) doc_invalid_with_rev =
     Inr \<lparr>errors = [VError ''_id'' ''required'', VError ''c_by'' ''required'',
                    VError ''c_at'' ''required'', VError ''m_by'' ''required'',
                    VError ''m_at'' ''required'']\<rparr>"
  by (simp add: validate_def doc_invalid_with_rev_def validator_validate_def schema_def
      check_type_def test_type_def validateProperties_def validateRequired_def
      validateAdditionalProperties_def validateSchema_def NonEmptyString_def DocumentID_def
      check_minLength_def check_pattern_def lookup_def widget_dao_def)

lemma validate_valid_with_rev:
  "validate (widget_dao []) doc_valid_with_rev = Inr \<lparr>errors = []\<rparr>"
  by (simp add: validate_def doc_valid_with_rev_def validator_validate_def schema_def
      check_type_def test_type_def validateProperties_def validateRequired_def
      validateAdditionalProperties_def validateSchema_def NonEmptyString_def DocumentID_def
      check_minLength_def check_pattern_def lookup_def widget_dao_def anchored_literal_def)

section \<open>create and the revision of the document\<close>

text \<open>
  C1 (as amended). \<^verbatim>\<open>create\<close> validates the document before it looks at the
  revision. A document that passes validation and carries a \<^verbatim>\<open>_rev\<close> fails with
  \<^verbatim>\<open>document may already exist\<close> (AlreadyExists), and the store is not called. A
  document that fails validation fails with \<^verbatim>\<open>invalid document\<close>
  (InvalidDocument), whether or not it carries a \<^verbatim>\<open>_rev\<close>.
\<close>

theorem create_with_rev:
  "(validate dao doc = Inr vr \<and> valid vr \<and> get_prop doc ''_rev'' \<noteq> Inr JUndefined
      \<longrightarrow> create dao doc w = (Inl (AssertionError ''document may already exist''), w))
   \<and> (validate dao doc = Inr vr \<and> \<not> valid vr
      \<longrightarrow> create dao doc w = (Inl (AssertionError ''invalid document''), w))"
proof (intro conjI impI)
  assume a: "validate dao doc = Inr vr \<and> valid vr \<and> get_prop doc ''_rev'' \<noteq> Inr JUndefined"
  then obtain fs s where doc: "doc = JObj fs" and rev: "lookup fs ''_rev'' = JStr s" "s \<noteq> []"
    using valid_rev [of dao doc vr] by auto
  from a show "create dao doc w = (Inl (AssertionError ''document may already exist''), w)"
    by (simp add: create_def seq_lift_Inr seq_lift_Inl seq_assert doc rev throw_def)
next
  assume "validate dao doc = Inr vr \<and> \<not> valid vr"
  then show "create dao doc w = (Inl (AssertionError ''invalid document''), w)"
    by (simp add: create_def seq_lift_Inr seq_assert throw_def)
qed

theorem create_with_rev_witness:
  "validate (widget_dao []) doc_valid_with_rev = Inr \<lparr>errors = []\<rparr>
   \<and> valid \<lparr>errors = []\<rparr>
   \<and> get_prop doc_valid_with_rev ''_rev'' \<noteq> Inr JUndefined
   \<and> create (widget_dao []) doc_valid_with_rev w0
       = (Inl (AssertionError ''document may already exist''), w0)"
proof -
  have 1: "validate (widget_dao []) doc_valid_with_rev = Inr \<lparr>errors = []\<rparr>"
    by (rule validate_valid_with_rev)
  have 2: "valid \<lparr>errors = []\<rparr>"
    by (simp add: valid_def)
  have 3: "get_prop doc_valid_with_rev ''_rev'' \<noteq> Inr JUndefined"
    by (simp add: doc_valid_with_rev_def lookup_def)
  from 1 2 3 create_with_rev [of "widget_dao []" doc_valid_with_rev "\<lparr>errors = []\<rparr>" w0]
  show ?thesis by blast
qed

text \<open>
  The claim as stated fails at a document that carries \<^verbatim>\<open>_rev\<close> and lacks the
  required fields: \<^verbatim>\<open>create\<close> rejects it as an invalid document.
\<close>

theorem create_invalid_with_rev_counterexample:
  "get_prop doc_invalid_with_rev ''_rev'' = Inr (JStr ''1-abc'')
   \<and> create (widget_dao []) doc_invalid_with_rev w0 = (Inl (AssertionError ''invalid document''), w0)
   \<and> fst (create (widget_dao []) doc_invalid_with_rev w0)
       \<noteq> Inl (AssertionError ''document may already exist'')"
  by (simp add: create_def validate_invalid_with_rev seq_lift_Inr seq_assert valid_def throw_def)
     (simp add: doc_invalid_with_rev_def lookup_def)

section \<open>The order of the checks of update and delete\<close>

lemma await_store_Inr:
  "f (store w) = (Inr x, s') \<Longrightarrow>
     await_store c f w = (Inr x, \<lparr>store = s', calls = calls w @ [c]\<rparr>)"
  by (simp add: await_store_def)

lemma await_store_Inl:
  "f (store w) = (Inl e, s') \<Longrightarrow>
     await_store c f w = (Inl (StoreError e), \<lparr>store = s', calls = calls w @ [c]\<rparr>)"
  by (simp add: await_store_def)

lemma assert_string_JStr:
  "assert_string (JStr s) m = (if s \<noteq> [] then return s else throw (AssertionError m))"
  by (simp add: assert_string_def)

lemma assert_string_bad:
  "\<not> (typeof v = ''string'' \<and> truthy v) \<Longrightarrow> assert_string v m = throw (AssertionError m)"
  by (cases v) (simp_all add: assert_string_def)

lemma valid_is_object:
  assumes "validate dao doc = Inr vr" "valid vr"
  shows "\<exists>fs. doc = JObj fs"
  using valid_parts [OF assms] by blast

lemma update_bad_id:
  "\<not> (typeof id' = ''string'' \<and> truthy id') \<Longrightarrow>
     update dao id' doc w = (Inl (AssertionError ''bad document id''), w)"
  by (simp add: update_def assert_string_bad seq_throw throw_def)

lemma update_invalid:
  "s \<noteq> [] \<Longrightarrow> validate dao doc = Inr vr \<Longrightarrow> \<not> valid vr \<Longrightarrow>
     update dao (JStr s) doc w = (Inl (AssertionError ''invalid document''), w)"
  by (simp add: update_def assert_string_JStr seq_return seq_lift_Inr seq_assert throw_def)

lemma update_mismatch:
  assumes "s \<noteq> []" "validate dao doc = Inr vr" "valid vr"
    "get_prop doc ''_id'' \<noteq> Inr (JStr (dao_type dao @ '':'' @ s))"
  shows "update dao (JStr s) doc w = (Inl (AssertionError ''document id mismatch''), w)"
proof -
  from valid_is_object [OF assms(2,3)] obtain fs where doc: "doc = JObj fs" ..
  with assms show ?thesis
    by (simp add: update_def assert_string_JStr seq_return seq_lift_Inr seq_assert throw_def)
qed

lemma update_no_rev:
  assumes "s \<noteq> []" "validate dao doc = Inr vr" "valid vr"
    "get_prop doc ''_id'' = Inr (JStr (dao_type dao @ '':'' @ s))"
    "get_prop doc ''_rev'' = Inr JUndefined"
  shows "update dao (JStr s) doc w = (Inl (AssertionError ''document must already exist''), w)"
proof -
  from valid_is_object [OF assms(2,3)] obtain fs where doc: "doc = JObj fs" ..
  with assms show ?thesis
    by (simp add: update_def assert_string_JStr seq_return seq_lift_Inr seq_assert throw_def)
qed

lemma update_success:
  assumes "s \<noteq> []" "validate dao doc = Inr vr" "valid vr"
    "get_prop doc ''_id'' = Inr (JStr (dao_type dao @ '':'' @ s))"
    "get_prop doc ''_rev'' \<noteq> Inr JUndefined"
    "db_insert (db dao) doc (store w) = (Inr res, s')"
  shows "update dao (JStr s) doc w =
           (Inr (JObj (put ''_rev'' (res_rev res) (own_props doc))),
            \<lparr>store = s', calls = calls w @ [Insert doc]\<rparr>)"
proof -
  from valid_rev [OF assms(2,3)] assms(5) obtain fs r where doc: "doc = JObj fs"
    and rev: "lookup fs ''_rev'' = JStr r" "r \<noteq> []"
    by auto
  with assms show ?thesis
    by (simp add: update_def assert_string_JStr seq_return seq_lift_Inr seq_assert
        seq_def [of "await_store c f" for c f] await_store_Inr return_def)
qed

lemma delete_mismatch:
  assumes "s \<noteq> []" "typeof doc = ''object''" "get_prop doc ''_id'' = Inr (JStr i)" "i \<noteq> []"
    "i \<noteq> dao_type dao @ '':'' @ s"
  shows "delete dao (JStr s) doc w = (Inl (AssertionError ''document id mismatch''), w)"
  using assms
  by (simp add: delete_def assert_string_JStr seq_return seq_lift_Inr seq_assert throw_def)

lemmas validate_eval =
  validate_def validator_validate_def schema_def
  check_type_def test_type_def validateProperties_def validateRequired_def
  validateAdditionalProperties_def validateSchema_def NonEmptyString_def DocumentID_def
  check_minLength_def check_pattern_def lookup_def widget_dao_def anchored_literal_def

lemma validate_doc_test_1: "validate (widget_dao M) doc_test_1 = Inr \<lparr>errors = []\<rparr>"
  by (simp add: validate_eval doc_test_1_def)

lemma validate_doc_test_1_new: "validate (widget_dao M) doc_test_1_new = Inr \<lparr>errors = []\<rparr>"
  by (simp add: validate_eval doc_test_1_new_def)

lemma validate_empty:
  "validate (widget_dao M) (JObj []) =
     Inr \<lparr>errors = [VError ''_id'' ''required'', VError ''c_by'' ''required'',
                    VError ''c_at'' ''required'', VError ''m_by'' ''required'',
                    VError ''m_at'' ''required'']\<rparr>"
  by (simp add: validate_eval)

text \<open>
  C2. \<^verbatim>\<open>update(id, doc)\<close> fails with \<^verbatim>\<open>bad document id\<close> (InvalidArgument)
  when the id is not a string with at least one character; otherwise with
  \<^verbatim>\<open>invalid document\<close> (InvalidDocument) when validation finds an error;
  otherwise with \<^verbatim>\<open>document id mismatch\<close> (IdentityMismatch) when \<^verbatim>\<open>doc._id\<close>
  is not \<^verbatim>\<open>type:id\<close>, whatever the revision; otherwise with
  \<^verbatim>\<open>document must already exist\<close> (PreconditionFailed) when \<^verbatim>\<open>doc._rev\<close> is
  absent. \<^verbatim>\<open>delete\<close> too reports the mismatch of a document id whatever the
  revision. When the store accepts the insert, \<^verbatim>\<open>update\<close> returns an object with
  the revision the store returned and every other field as in the document.
\<close>

theorem update_checks_in_order:
  "(\<not> (typeof id' = ''string'' \<and> truthy id')
      \<longrightarrow> update dao id' doc w = (Inl (AssertionError ''bad document id''), w))
   \<and> (s \<noteq> [] \<and> validate dao doc = Inr vr \<and> \<not> valid vr
      \<longrightarrow> update dao (JStr s) doc w = (Inl (AssertionError ''invalid document''), w))
   \<and> (s \<noteq> [] \<and> validate dao doc = Inr vr \<and> valid vr
        \<and> get_prop doc ''_id'' \<noteq> Inr (JStr (dao_type dao @ '':'' @ s))
      \<longrightarrow> update dao (JStr s) doc w = (Inl (AssertionError ''document id mismatch''), w))
   \<and> (s \<noteq> [] \<and> validate dao doc = Inr vr \<and> valid vr
        \<and> get_prop doc ''_id'' = Inr (JStr (dao_type dao @ '':'' @ s))
        \<and> get_prop doc ''_rev'' = Inr JUndefined
      \<longrightarrow> update dao (JStr s) doc w = (Inl (AssertionError ''document must already exist''), w))
   \<and> (s \<noteq> [] \<and> typeof doc = ''object'' \<and> get_prop doc ''_id'' = Inr (JStr i) \<and> i \<noteq> []
        \<and> i \<noteq> dao_type dao @ '':'' @ s
      \<longrightarrow> delete dao (JStr s) doc w = (Inl (AssertionError ''document id mismatch''), w))
   \<and> (s \<noteq> [] \<and> validate dao doc = Inr vr \<and> valid vr
        \<and> get_prop doc ''_id'' = Inr (JStr (dao_type dao @ '':'' @ s))
        \<and> get_prop doc ''_rev'' \<noteq> Inr JUndefined
        \<and> db_insert (db dao) doc (store w) = (Inr res, s')
      \<longrightarrow> (\<exists>r. update dao (JStr s) doc w
                  = (Inr r, \<lparr>store = s', calls = calls w @ [Insert doc]\<rparr>)
               \<and> get_prop r ''_rev'' = Inr (res_rev res)
               \<and> (\<forall>k. k \<noteq> ''_rev'' \<longrightarrow> get_prop r k = get_prop doc k)))"
proof (intro conjI impI)
  assume "\<not> (typeof id' = ''string'' \<and> truthy id')"
  then show "update dao id' doc w = (Inl (AssertionError ''bad document id''), w)"
    by (rule update_bad_id)
next
  assume "s \<noteq> [] \<and> validate dao doc = Inr vr \<and> \<not> valid vr"
  then show "update dao (JStr s) doc w = (Inl (AssertionError ''invalid document''), w)"
    by (simp add: update_invalid)
next
  assume "s \<noteq> [] \<and> validate dao doc = Inr vr \<and> valid vr
        \<and> get_prop doc ''_id'' \<noteq> Inr (JStr (dao_type dao @ '':'' @ s))"
  then show "update dao (JStr s) doc w = (Inl (AssertionError ''document id mismatch''), w)"
    by (simp add: update_mismatch)
next
  assume "s \<noteq> [] \<and> validate dao doc = Inr vr \<and> valid vr
        \<and> get_prop doc ''_id'' = Inr (JStr (dao_type dao @ '':'' @ s))
        \<and> get_prop doc ''_rev'' = Inr JUndefined"
  then show "update dao (JStr s) doc w = (Inl (AssertionError ''document must already exist''), w)"
    by (simp add: update_no_rev)
next
  assume "s \<noteq> [] \<and> typeof doc = ''object'' \<and> get_prop doc ''_id'' = Inr (JStr i) \<and> i \<noteq> []
        \<and> i \<noteq> dao_type dao @ '':'' @ s"
  then show "delete dao (JStr s) doc w = (Inl (AssertionError ''document id mismatch''), w)"
    by (simp add: delete_mismatch)
next
  assume a: "s \<noteq> [] \<and> validate dao doc = Inr vr \<and> valid vr
        \<and> get_prop doc ''_id'' = Inr (JStr (dao_type dao @ '':'' @ s))
        \<and> get_prop doc ''_rev'' \<noteq> Inr JUndefined
        \<and> db_insert (db dao) doc (store w) = (Inr res, s')"
  then obtain fs where doc: "doc = JObj fs"
    using valid_is_object by blast
  from a have "update dao (JStr s) doc w =
           (Inr (JObj (put ''_rev'' (res_rev res) (own_props doc))),
            \<lparr>store = s', calls = calls w @ [Insert doc]\<rparr>)"
    by (simp add: update_success)
  then show "\<exists>r. update dao (JStr s) doc w
                  = (Inr r, \<lparr>store = s', calls = calls w @ [Insert doc]\<rparr>)
               \<and> get_prop r ''_rev'' = Inr (res_rev res)
               \<and> (\<forall>k. k \<noteq> ''_rev'' \<longrightarrow> get_prop r k = get_prop doc k)"
    by (simp add: doc lookup_put)
qed

lemma valid_errors: "valid \<lparr>errors = es\<rparr> \<longleftrightarrow> es = []"
  by (simp add: valid_def)

theorem update_checks_in_order_witness:
  "validate (widget_dao []) doc_test_1 = Inr \<lparr>errors = []\<rparr>
   \<and> validate (widget_dao []) doc_test_1_new = Inr \<lparr>errors = []\<rparr>
   \<and> get_prop doc_test_1_new ''_rev'' = Inr JUndefined
   \<and> update (widget_dao []) (JNum 123) doc_test_1 w0
       = (Inl (AssertionError ''bad document id''), w0)
   \<and> update (widget_dao []) (JStr ''test-update-id'') (JObj []) w0
       = (Inl (AssertionError ''invalid document''), w0)
   \<and> update (widget_dao []) (JStr ''test-2'') doc_test_1 w0
       = (Inl (AssertionError ''document id mismatch''), w0)
   \<and> update (widget_dao []) (JStr ''test-2'') doc_test_1_new w0
       = (Inl (AssertionError ''document id mismatch''), w0)
   \<and> update (widget_dao []) (JStr ''test-1'') doc_test_1_new w0
       = (Inl (AssertionError ''document must already exist''), w0)
   \<and> delete (widget_dao []) (JStr ''test-2'') doc_test_1_new w0
       = (Inl (AssertionError ''document id mismatch''), w0)
   \<and> (\<exists>r. update (widget_dao []) (JStr ''test-1'') doc_test_1 w0
              = (Inr r, \<lparr>store = (), calls = [Insert doc_test_1]\<rparr>)
          \<and> get_prop r ''_rev'' = Inr (JStr ''2-new'')
          \<and> get_prop r ''test'' = Inr (JStr ''initial-value''))"
proof -
  note c1 = update_checks_in_order [THEN conjunct1, rule_format]
  note c2 = update_checks_in_order [THEN conjunct2, THEN conjunct1, rule_format]
  note c3 = update_checks_in_order [THEN conjunct2, THEN conjunct2, THEN conjunct1, rule_format]
  note c4 = update_checks_in_order [THEN conjunct2, THEN conjunct2, THEN conjunct2, THEN conjunct1,
      rule_format]
  note c5 = update_checks_in_order [THEN conjunct2, THEN conjunct2, THEN conjunct2, THEN conjunct2,
      THEN conjunct1, rule_format]
  note c6 = update_checks_in_order [THEN conjunct2, THEN conjunct2, THEN conjunct2, THEN conjunct2,
      THEN conjunct2, rule_format]
  have v1: "validate (widget_dao []) doc_test_1 = Inr \<lparr>errors = []\<rparr>"
    by (rule validate_doc_test_1)
  have v2: "validate (widget_dao []) doc_test_1_new = Inr \<lparr>errors = []\<rparr>"
    by (rule validate_doc_test_1_new)
  have r2: "get_prop doc_test_1_new ''_rev'' = Inr JUndefined"
    by (simp add: doc_test_1_new_def lookup_def)
  have a1: "update (widget_dao []) (JNum 123) doc_test_1 w0
       = (Inl (AssertionError ''bad document id''), w0)"
    by (rule c1) simp
  have a2: "update (widget_dao []) (JStr ''test-update-id'') (JObj []) w0
       = (Inl (AssertionError ''invalid document''), w0)"
    by (rule c2 [where vr = "\<lparr>errors = [VError ''_id'' ''required'', VError ''c_by'' ''required'',
                    VError ''c_at'' ''required'', VError ''m_by'' ''required'',
                    VError ''m_at'' ''required'']\<rparr>"])
       (simp add: validate_empty valid_errors)
  have a3: "update (widget_dao []) (JStr ''test-2'') doc_test_1 w0
       = (Inl (AssertionError ''document id mismatch''), w0)"
    by (rule c3 [where vr = "\<lparr>errors = []\<rparr>"])
       (simp add: v1 valid_errors, simp add: doc_test_1_def lookup_def widget_dao_def)
  have a4: "update (widget_dao []) (JStr ''test-2'') doc_test_1_new w0
       = (Inl (AssertionError ''document id mismatch''), w0)"
    by (rule c3 [where vr = "\<lparr>errors = []\<rparr>"])
       (simp add: v2 valid_errors, simp add: doc_test_1_new_def lookup_def widget_dao_def)
  have a5: "update (widget_dao []) (JStr ''test-1'') doc_test_1_new w0
       = (Inl (AssertionError ''document must already exist''), w0)"
    by (rule c4 [where vr = "\<lparr>errors = []\<rparr>"])
       (simp add: v2 valid_errors, simp add: doc_test_1_new_def lookup_def widget_dao_def)
  have a6: "delete (widget_dao []) (JStr ''test-2'') doc_test_1_new w0
       = (Inl (AssertionError ''document id mismatch''), w0)"
    by (rule c5 [where i = "''WIDGET:test-1''"])
       (simp add: doc_test_1_new_def lookup_def widget_dao_def)
  have "\<exists>r. update (widget_dao []) (JStr ''test-1'') doc_test_1 w0
              = (Inr r, \<lparr>store = store w0, calls = calls w0 @ [Insert doc_test_1]\<rparr>)
          \<and> get_prop r ''_rev'' = Inr (res_rev \<lparr>res_id = JStr ''WIDGET:test-1'', res_rev = JStr ''2-new''\<rparr>)
          \<and> (\<forall>k. k \<noteq> ''_rev'' \<longrightarrow> get_prop r k = get_prop doc_test_1 k)"
    by (rule c6 [where vr = "\<lparr>errors = []\<rparr>"])
       (simp add: v1 valid_errors, simp add: doc_test_1_def lookup_def widget_dao_def test_store_def)
  then obtain r where r: "update (widget_dao []) (JStr ''test-1'') doc_test_1 w0
              = (Inr r, \<lparr>store = store w0, calls = calls w0 @ [Insert doc_test_1]\<rparr>)"
      "get_prop r ''_rev'' = Inr (JStr ''2-new'')"
      "get_prop r ''test'' = get_prop doc_test_1 ''test''"
    by auto
  have "get_prop doc_test_1 ''test'' = Inr (JStr ''initial-value'')"
    by (simp add: doc_test_1_def lookup_def)
  with r have a7: "\<exists>r. update (widget_dao []) (JStr ''test-1'') doc_test_1 w0
              = (Inr r, \<lparr>store = (), calls = [Insert doc_test_1]\<rparr>)
          \<and> get_prop r ''_rev'' = Inr (JStr ''2-new'')
          \<and> get_prop r ''test'' = Inr (JStr ''initial-value'')"
    by (simp add: w0_def)
  from v1 v2 r2 a1 a2 a3 a4 a5 a6 a7 show ?thesis by blast
qed

section \<open>retrieve and the errors of the store\<close>

lemma retrieve_bad_id:
  "\<not> (typeof id' = ''string'' \<and> truthy id') \<Longrightarrow>
     retrieve dao id' w = (Inl (AssertionError ''bad document id''), w)"
  by (simp add: retrieve_def assert_string_bad seq_throw throw_def)

lemma retrieve_found:
  "s \<noteq> [] \<Longrightarrow> db_get (db dao) (dao_type dao @ '':'' @ s) (store w) = (Inr d, s') \<Longrightarrow>
     retrieve dao (JStr s) w
       = (Inr d, \<lparr>store = s', calls = calls w @ [Get (dao_type dao @ '':'' @ s)]\<rparr>)"
  by (simp add: retrieve_def assert_string_JStr seq_return catch_def await_store_Inr)

lemma retrieve_store_error:
  "s \<noteq> [] \<Longrightarrow> db_get (db dao) (dao_type dao @ '':'' @ s) (store w) = (Inl e, s') \<Longrightarrow>
     retrieve dao (JStr s) w
       = (if statusCode e \<noteq> Some 404 then Inl (StoreError e) else Inr JNull,
          \<lparr>store = s', calls = calls w @ [Get (dao_type dao @ '':'' @ s)]\<rparr>)"
  by (simp add: retrieve_def assert_string_JStr seq_return catch_def await_store_Inl throw_def
      return_def)

text \<open>
  C4. \<^verbatim>\<open>retrieve(id)\<close> fails with \<^verbatim>\<open>bad document id\<close> (InvalidArgument) when
  the id is not a string with at least one character. Otherwise it asks the store
  for \<^verbatim>\<open>type:id\<close>: when the store answers with an error whose status code is 404
  the result is \<^verbatim>\<open>null\<close> and nothing is thrown, and every other error of the store
  is thrown as the store gave it.
\<close>

theorem retrieve_not_found_is_null:
  "(\<not> (typeof id' = ''string'' \<and> truthy id')
      \<longrightarrow> retrieve dao id' w = (Inl (AssertionError ''bad document id''), w))
   \<and> (s \<noteq> [] \<and> db_get (db dao) (dao_type dao @ '':'' @ s) (store w) = (Inl e, s')
        \<and> statusCode e = Some 404
      \<longrightarrow> retrieve dao (JStr s) w
            = (Inr JNull, \<lparr>store = s', calls = calls w @ [Get (dao_type dao @ '':'' @ s)]\<rparr>))
   \<and> (s \<noteq> [] \<and> db_get (db dao) (dao_type dao @ '':'' @ s) (store w) = (Inl e, s')
        \<and> statusCode e \<noteq> Some 404
      \<longrightarrow> retrieve dao (JStr s) w
            = (Inl (StoreError e),
               \<lparr>store = s', calls = calls w @ [Get (dao_type dao @ '':'' @ s)]\<rparr>))"
  by (simp add: retrieve_bad_id retrieve_store_error)

theorem retrieve_not_found_is_null_witness:
  "retrieve (widget_dao []) (JStr []) w0 = (Inl (AssertionError ''bad document id''), w0)
   \<and> retrieve (widget_dao []) (JNum 123) w0 = (Inl (AssertionError ''bad document id''), w0)
   \<and> retrieve (widget_dao []) (JStr ''does-not-exist'') w0
       = (Inr JNull, \<lparr>store = (), calls = [Get ''WIDGET:does-not-exist'']\<rparr>)
   \<and> retrieve (widget_dao []) (JStr ''broken'') w0
       = (Inl (StoreError (StoreErr (Some 500) ''internal'')),
          \<lparr>store = (), calls = [Get ''WIDGET:broken'']\<rparr>)"
proof -
  note c1 = retrieve_not_found_is_null [THEN conjunct1, rule_format]
  note c2 = retrieve_not_found_is_null [THEN conjunct2, THEN conjunct1, rule_format]
  note c3 = retrieve_not_found_is_null [THEN conjunct2, THEN conjunct2, rule_format]
  have a1: "retrieve (widget_dao []) (JStr []) w0 = (Inl (AssertionError ''bad document id''), w0)"
    by (rule c1) simp
  have a2: "retrieve (widget_dao []) (JNum 123) w0 = (Inl (AssertionError ''bad document id''), w0)"
    by (rule c1) simp
  have "retrieve (widget_dao []) (JStr ''does-not-exist'') w0
       = (Inr JNull, \<lparr>store = (), calls = calls w0 @ [Get (dao_type (widget_dao []) @ '':'' @ ''does-not-exist'')]\<rparr>)"
    by (rule c2 [where e = "StoreErr (Some 404) ''missing''"])
       (simp add: widget_dao_def test_store_def)
  then have a3: "retrieve (widget_dao []) (JStr ''does-not-exist'') w0
       = (Inr JNull, \<lparr>store = (), calls = [Get ''WIDGET:does-not-exist'']\<rparr>)"
    by (simp add: widget_dao_def w0_def)
  have "retrieve (widget_dao []) (JStr ''broken'') w0
       = (Inl (StoreError (StoreErr (Some 500) ''internal'')),
          \<lparr>store = (), calls = calls w0 @ [Get (dao_type (widget_dao []) @ '':'' @ ''broken'')]\<rparr>)"
    by (rule c3) (simp add: widget_dao_def test_store_def)
  then have a4: "retrieve (widget_dao []) (JStr ''broken'') w0
       = (Inl (StoreError (StoreErr (Some 500) ''internal'')),
          \<lparr>store = (), calls = [Get ''WIDGET:broken'']\<rparr>)"
    by (simp add: widget_dao_def w0_def)
  from a1 a2 a3 a4 show ?thesis by blast
qed

section \<open>Queries of a view\<close>

lemma typeof_truthy_string: "typeof v = ''string'' \<and> truthy v \<longleftrightarrow> (\<exists>s. v = JStr s \<and> s \<noteq> [])"
  by (cases v) simp_all

lemma partitionedView_Inr:
  "db_partitionedView (db dao) (dao_type dao) (dao_type dao) v opts (store w) = (Inr res, s') \<Longrightarrow>
     partitionedView dao v opts w
       = (Inr res, \<lparr>store = s', calls = calls w @ [PartitionedView (dao_type dao) (dao_type dao) v opts]\<rparr>)"
  by (simp add: partitionedView_def await_store_Inr)

lemma partitionedView_Inl:
  "db_partitionedView (db dao) (dao_type dao) (dao_type dao) v opts (store w) = (Inl e, s') \<Longrightarrow>
     partitionedView dao v opts w
       = (Inl (StoreError e), \<lparr>store = s', calls = calls w @ [PartitionedView (dao_type dao) (dao_type dao) v opts]\<rparr>)"
  by (simp add: partitionedView_def await_store_Inl)

lemma seq_partitionedView:
  "db_partitionedView (db dao) (dao_type dao) (dao_type dao) v opts (store w) = (Inr res, s') \<Longrightarrow>
     seq (partitionedView dao v opts) f w
       = f res \<lparr>store = s', calls = calls w @ [PartitionedView (dao_type dao) (dao_type dao) v opts]\<rparr>"
  by (simp add: seq_def partitionedView_Inr)

lemma findOne_answer:
  assumes "typeof viewName = ''string'' \<and> truthy viewName" "key \<noteq> []"
    "db_partitionedView (db dao) (dao_type dao) (dao_type dao) viewName
       (JObj [(''reduce'', JBool False), (''include_docs'', JBool True),
              (''limit'', JNum 2), (''key'', JArr key)]) (store w) = (Inr res, s')"
  shows "findOne dao viewName key w =
           (if length (rows res) \<le> 1
            then Inr (case rows res of [] \<Rightarrow> JNull | r # _ \<Rightarrow> row_doc r)
            else Inl (AssertionError ''key is not unique''),
            \<lparr>store = s', calls = calls w @ [PartitionedView (dao_type dao) (dao_type dao) viewName
               (JObj [(''reduce'', JBool False), (''include_docs'', JBool True),
                      (''limit'', JNum 2), (''key'', JArr key)])]\<rparr>)"
  using assms
  by (simp add: findOne_def seq_assert seq_partitionedView return_def throw_def)

lemma exists_answer:
  assumes "typeof viewName = ''string'' \<and> truthy viewName" "key \<noteq> []"
    "db_partitionedView (db dao) (dao_type dao) (dao_type dao) viewName
       (JObj [(''reduce'', JBool False), (''include_docs'', JBool False),
              (''limit'', JNum 1), (''key'', JArr key)]) (store w) = (Inr res, s')"
  shows "exists dao viewName key w =
           (Inr (JBool (rows res \<noteq> [])),
            \<lparr>store = s', calls = calls w @ [PartitionedView (dao_type dao) (dao_type dao) viewName
               (JObj [(''reduce'', JBool False), (''include_docs'', JBool False),
                      (''limit'', JNum 1), (''key'', JArr key)])]\<rparr>)"
  using assms
  by (simp add: exists_def seq_assert seq_partitionedView return_def)

lemma count_answer:
  assumes "typeof viewName = ''string'' \<and> truthy viewName"
    "db_partitionedView (db dao) (dao_type dao) (dao_type dao) viewName
       (JObj [(''reduce'', JBool True), (''key'', if key \<noteq> [] then JArr key else JUndefined)])
       (store w) = (Inr res, s')"
  shows "count dao viewName key w =
           (Inr (case rows res of [] \<Rightarrow> JNum 0 | r # _ \<Rightarrow> row_value r),
            \<lparr>store = s', calls = calls w @ [PartitionedView (dao_type dao) (dao_type dao) viewName
               (JObj [(''reduce'', JBool True),
                      (''key'', if key \<noteq> [] then JArr key else JUndefined)])]\<rparr>)"
  using assms
  by (simp add: count_def seq_assert seq_partitionedView return_def)

subsection \<open>findOne\<close>

text \<open>
  C5. For a view name that is a string with at least one character and a key with
  at least one component, \<^verbatim>\<open>findOne\<close> asks the store once, for the view with
  \<^verbatim>\<open>reduce: false\<close>, \<^verbatim>\<open>include_docs: true\<close>, \<^verbatim>\<open>limit: 2\<close> and the key. When the
  answer has no row it returns \<^verbatim>\<open>null\<close>, when it has one row it returns the document
  of that row, and when it has two rows or more it fails with
  \<^verbatim>\<open>key is not unique\<close> (NotUnique).
\<close>

theorem findOne_unique_or_null:
  "typeof viewName = ''string'' \<and> truthy viewName \<and> key \<noteq> []
   \<and> db_partitionedView (db dao) (dao_type dao) (dao_type dao) viewName
        (JObj [(''reduce'', JBool False), (''include_docs'', JBool True),
               (''limit'', JNum 2), (''key'', JArr key)]) (store w) = (Inr res, s')
   \<longrightarrow> findOne dao viewName key w =
         (case rows res of
            [] \<Rightarrow> Inr JNull
          | [r] \<Rightarrow> Inr (row_doc r)
          | r # r' # rs \<Rightarrow> Inl (AssertionError ''key is not unique''),
          \<lparr>store = s', calls = calls w @ [PartitionedView (dao_type dao) (dao_type dao) viewName
             (JObj [(''reduce'', JBool False), (''include_docs'', JBool True),
                    (''limit'', JNum 2), (''key'', JArr key)])]\<rparr>)"
  by (auto simp: findOne_answer split: list.splits)

lemma view_answer_limit:
  "view_answer M (JObj [(''reduce'', JBool False), (''include_docs'', b),
                        (''limit'', JNum (of_nat n)), (''key'', k)]) = take n M"
  by (simp add: view_answer_def lookup_def)

lemma view_answer_reduce:
  "view_answer M (JObj [(''reduce'', JBool True), (''key'', k)]) =
     (if M = [] then []
      else [\<lparr>row_key = JNull, row_value = JNum (of_nat (length M)), row_doc = JUndefined\<rparr>])"
  by (simp add: view_answer_def lookup_def)

lemma widget_view:
  "db_partitionedView (db (widget_dao M)) p d v opts s = (Inr \<lparr>rows = view_answer M opts\<rparr>, s)"
  by (simp add: widget_dao_def test_store_def)

theorem findOne_unique_or_null_witness:
  "findOne (widget_dao [row_known_1, row_known_2]) (JStr ''by-status'') [JStr ''ACTIVE''] w0
     = (Inl (AssertionError ''key is not unique''),
        \<lparr>store = (), calls = [PartitionedView ''WIDGET'' ''WIDGET'' (JStr ''by-status'')
           (JObj [(''reduce'', JBool False), (''include_docs'', JBool True),
                  (''limit'', JNum 2), (''key'', JArr [JStr ''ACTIVE''])])]\<rparr>)
   \<and> findOne (widget_dao [row_known_1]) (JStr ''by-name'') [JStr ''known-1''] w0
     = (Inr known_1,
        \<lparr>store = (), calls = [PartitionedView ''WIDGET'' ''WIDGET'' (JStr ''by-name'')
           (JObj [(''reduce'', JBool False), (''include_docs'', JBool True),
                  (''limit'', JNum 2), (''key'', JArr [JStr ''known-1''])])]\<rparr>)
   \<and> findOne (widget_dao []) (JStr ''by-name'') [JStr ''no-widget-by-this-name''] w0
     = (Inr JNull,
        \<lparr>store = (), calls = [PartitionedView ''WIDGET'' ''WIDGET'' (JStr ''by-name'')
           (JObj [(''reduce'', JBool False), (''include_docs'', JBool True),
                  (''limit'', JNum 2), (''key'', JArr [JStr ''no-widget-by-this-name''])])]\<rparr>)"
proof -
  note t = findOne_unique_or_null [rule_format]
  have l: "view_answer M (JObj [(''reduce'', JBool False), (''include_docs'', JBool True),
              (''limit'', JNum 2), (''key'', k)]) = take 2 M" for M k
    using view_answer_limit [of M "JBool True" 2 k] by simp
  have a1: "findOne (widget_dao [row_known_1, row_known_2]) (JStr ''by-status'') [JStr ''ACTIVE''] w0
     = (Inl (AssertionError ''key is not unique''),
        \<lparr>store = (), calls = [PartitionedView ''WIDGET'' ''WIDGET'' (JStr ''by-status'')
           (JObj [(''reduce'', JBool False), (''include_docs'', JBool True),
                  (''limit'', JNum 2), (''key'', JArr [JStr ''ACTIVE''])])]\<rparr>)"
    using t [of "JStr ''by-status''" "[JStr ''ACTIVE'']" "widget_dao [row_known_1, row_known_2]" w0
        "\<lparr>rows = [row_known_1, row_known_2]\<rparr>" "()"]
    by (simp add: widget_view l) (simp add: widget_dao_def w0_def)
  have a2: "findOne (widget_dao [row_known_1]) (JStr ''by-name'') [JStr ''known-1''] w0
     = (Inr known_1,
        \<lparr>store = (), calls = [PartitionedView ''WIDGET'' ''WIDGET'' (JStr ''by-name'')
           (JObj [(''reduce'', JBool False), (''include_docs'', JBool True),
                  (''limit'', JNum 2), (''key'', JArr [JStr ''known-1''])])]\<rparr>)"
    using t [of "JStr ''by-name''" "[JStr ''known-1'']" "widget_dao [row_known_1]" w0
        "\<lparr>rows = [row_known_1]\<rparr>" "()"]
    by (simp add: widget_view l) (simp add: widget_dao_def w0_def row_known_1_def)
  have a3: "findOne (widget_dao []) (JStr ''by-name'') [JStr ''no-widget-by-this-name''] w0
     = (Inr JNull,
        \<lparr>store = (), calls = [PartitionedView ''WIDGET'' ''WIDGET'' (JStr ''by-name'')
           (JObj [(''reduce'', JBool False), (''include_docs'', JBool True),
                  (''limit'', JNum 2), (''key'', JArr [JStr ''no-widget-by-this-name''])])]\<rparr>)"
    using t [of "JStr ''by-name''" "[JStr ''no-widget-by-this-name'']" "widget_dao []" w0
        "\<lparr>rows = []\<rparr>" "()"]
    by (simp add: widget_view l) (simp add: widget_dao_def w0_def)
  from a1 a2 a3 show ?thesis by blast
qed

subsection \<open>count\<close>

text \<open>
  C6. For a view name that is a string with at least one character, \<^verbatim>\<open>count\<close>
  asks the store once, for the view with \<^verbatim>\<open>reduce: true\<close>. The key is attached
  when at least one component was given; with no component the option \<^verbatim>\<open>key\<close> is
  \<^verbatim>\<open>undefined\<close> and the reduction runs over the whole view. The result is the value
  of the first row of the answer, or 0 when the answer has no row.
\<close>

theorem count_first_row_or_zero:
  "(typeof viewName = ''string'' \<and> truthy viewName \<and> key \<noteq> []
    \<and> db_partitionedView (db dao) (dao_type dao) (dao_type dao) viewName
         (JObj [(''reduce'', JBool True), (''key'', JArr key)]) (store w) = (Inr res, s')
    \<longrightarrow> count dao viewName key w =
          (Inr (case rows res of [] \<Rightarrow> JNum 0 | r # rs \<Rightarrow> row_value r),
           \<lparr>store = s', calls = calls w @ [PartitionedView (dao_type dao) (dao_type dao) viewName
              (JObj [(''reduce'', JBool True), (''key'', JArr key)])]\<rparr>))
   \<and> (typeof viewName = ''string'' \<and> truthy viewName
    \<and> db_partitionedView (db dao) (dao_type dao) (dao_type dao) viewName
         (JObj [(''reduce'', JBool True), (''key'', JUndefined)]) (store w) = (Inr res, s')
    \<longrightarrow> count dao viewName [] w =
          (Inr (case rows res of [] \<Rightarrow> JNum 0 | r # rs \<Rightarrow> row_value r),
           \<lparr>store = s', calls = calls w @ [PartitionedView (dao_type dao) (dao_type dao) viewName
              (JObj [(''reduce'', JBool True), (''key'', JUndefined)])]\<rparr>))"
  using count_answer [of viewName dao key w res s'] count_answer [of viewName dao "[]" w res s']
  by simp

theorem count_first_row_or_zero_witness:
  "count (widget_dao [row_known_1, row_known_2]) (JStr ''by-status'') [JStr ''ACTIVE''] w0
     = (Inr (JNum 2),
        \<lparr>store = (), calls = [PartitionedView ''WIDGET'' ''WIDGET'' (JStr ''by-status'')
           (JObj [(''reduce'', JBool True), (''key'', JArr [JStr ''ACTIVE''])])]\<rparr>)
   \<and> count (widget_dao []) (JStr ''by-status'') [JStr ''UNKNOWN-STATUS''] w0
     = (Inr (JNum 0),
        \<lparr>store = (), calls = [PartitionedView ''WIDGET'' ''WIDGET'' (JStr ''by-status'')
           (JObj [(''reduce'', JBool True), (''key'', JArr [JStr ''UNKNOWN-STATUS''])])]\<rparr>)
   \<and> count (widget_dao [row_known_1, row_known_2]) (JStr ''by-name'') [] w0
     = (Inr (JNum 2),
        \<lparr>store = (), calls = [PartitionedView ''WIDGET'' ''WIDGET'' (JStr ''by-name'')
           (JObj [(''reduce'', JBool True), (''key'', JUndefined)])]\<rparr>)"
proof -
  note c1 = count_first_row_or_zero [THEN conjunct1, rule_format]
  note c2 = count_first_row_or_zero [THEN conjunct2, rule_format]
  have a1: "count (widget_dao [row_known_1, row_known_2]) (JStr ''by-status'') [JStr ''ACTIVE''] w0
     = (Inr (JNum 2),
        \<lparr>store = (), calls = [PartitionedView ''WIDGET'' ''WIDGET'' (JStr ''by-status'')
           (JObj [(''reduce'', JBool True), (''key'', JArr [JStr ''ACTIVE''])])]\<rparr>)"
    using c1 [of "JStr ''by-status''" "[JStr ''ACTIVE'']" "widget_dao [row_known_1, row_known_2]" w0
        "\<lparr>rows = [\<lparr>row_key = JNull, row_value = JNum 2, row_doc = JUndefined\<rparr>]\<rparr>" "()"]
    by (simp add: widget_view view_answer_reduce) (simp add: widget_dao_def w0_def)
  have a2: "count (widget_dao []) (JStr ''by-status'') [JStr ''UNKNOWN-STATUS''] w0
     = (Inr (JNum 0),
        \<lparr>store = (), calls = [PartitionedView ''WIDGET'' ''WIDGET'' (JStr ''by-status'')
           (JObj [(''reduce'', JBool True), (''key'', JArr [JStr ''UNKNOWN-STATUS''])])]\<rparr>)"
    using c1 [of "JStr ''by-status''" "[JStr ''UNKNOWN-STATUS'']" "widget_dao []" w0
        "\<lparr>rows = []\<rparr>" "()"]
    by (simp add: widget_view view_answer_reduce) (simp add: widget_dao_def w0_def)
  have a3: "count (widget_dao [row_known_1, row_known_2]) (JStr ''by-name'') [] w0
     = (Inr (JNum 2),
        \<lparr>store = (), calls = [PartitionedView ''WIDGET'' ''WIDGET'' (JStr ''by-name'')
           (JObj [(''reduce'', JBool True), (''key'', JUndefined)])]\<rparr>)"
    using c2 [of "JStr ''by-name''" "widget_dao [row_known_1, row_known_2]" w0
        "\<lparr>rows = [\<lparr>row_key = JNull, row_value = JNum 2, row_doc = JUndefined\<rparr>]\<rparr>" "()"]
    by (simp add: widget_view view_answer_reduce) (simp add: widget_dao_def w0_def)
  from a1 a2 a3 show ?thesis by blast
qed

subsection \<open>exists\<close>

text \<open>
  C7. For a view name that is a string with at least one character and a key with
  at least one component, \<^verbatim>\<open>exists\<close> asks the store once, for the view with
  \<^verbatim>\<open>reduce: false\<close>, \<^verbatim>\<open>include_docs: false\<close>, \<^verbatim>\<open>limit: 1\<close> and the key, and
  returns the boolean that says whether the answer has a row. Over a store that
  answers a query of limit n with the first n of the matching rows M, it returns
  true exactly when M has a row; with two matching rows or more it returns true
  where \<^verbatim>\<open>findOne\<close> with the same key fails with \<^verbatim>\<open>key is not unique\<close>.
\<close>

theorem exists_true_iff_row:
  "(typeof viewName = ''string'' \<and> truthy viewName \<and> key \<noteq> []
    \<and> db_partitionedView (db dao) (dao_type dao) (dao_type dao) viewName
         (JObj [(''reduce'', JBool False), (''include_docs'', JBool False),
                (''limit'', JNum 1), (''key'', JArr key)]) (store w) = (Inr res, s')
    \<longrightarrow> exists dao viewName key w =
          (Inr (JBool (rows res \<noteq> [])),
           \<lparr>store = s', calls = calls w @ [PartitionedView (dao_type dao) (dao_type dao) viewName
              (JObj [(''reduce'', JBool False), (''include_docs'', JBool False),
                     (''limit'', JNum 1), (''key'', JArr key)])]\<rparr>))
   \<and> (typeof viewName = ''string'' \<and> truthy viewName \<and> key \<noteq> []
    \<and> db_partitionedView (db dao) (dao_type dao) (dao_type dao) viewName
         (JObj [(''reduce'', JBool False), (''include_docs'', JBool False),
                (''limit'', JNum 1), (''key'', JArr key)]) (store w) = (Inr \<lparr>rows = take 1 M\<rparr>, s1)
    \<longrightarrow> fst (exists dao viewName key w) = Inr (JBool (M \<noteq> [])))
   \<and> (typeof viewName = ''string'' \<and> truthy viewName \<and> key \<noteq> [] \<and> 2 \<le> length M
    \<and> db_partitionedView (db dao) (dao_type dao) (dao_type dao) viewName
         (JObj [(''reduce'', JBool False), (''include_docs'', JBool False),
                (''limit'', JNum 1), (''key'', JArr key)]) (store w) = (Inr \<lparr>rows = take 1 M\<rparr>, s1)
    \<and> db_partitionedView (db dao) (dao_type dao) (dao_type dao) viewName
         (JObj [(''reduce'', JBool False), (''include_docs'', JBool True),
                (''limit'', JNum 2), (''key'', JArr key)]) (store w) = (Inr \<lparr>rows = take 2 M\<rparr>, s2)
    \<longrightarrow> fst (exists dao viewName key w) = Inr (JBool True)
        \<and> fst (findOne dao viewName key w) = Inl (AssertionError ''key is not unique''))"
proof (intro conjI impI)
  assume "typeof viewName = ''string'' \<and> truthy viewName \<and> key \<noteq> []
    \<and> db_partitionedView (db dao) (dao_type dao) (dao_type dao) viewName
         (JObj [(''reduce'', JBool False), (''include_docs'', JBool False),
                (''limit'', JNum 1), (''key'', JArr key)]) (store w) = (Inr res, s')"
  then show "exists dao viewName key w =
          (Inr (JBool (rows res \<noteq> [])),
           \<lparr>store = s', calls = calls w @ [PartitionedView (dao_type dao) (dao_type dao) viewName
              (JObj [(''reduce'', JBool False), (''include_docs'', JBool False),
                     (''limit'', JNum 1), (''key'', JArr key)])]\<rparr>)"
    by (simp add: exists_answer)
next
  assume "typeof viewName = ''string'' \<and> truthy viewName \<and> key \<noteq> []
    \<and> db_partitionedView (db dao) (dao_type dao) (dao_type dao) viewName
         (JObj [(''reduce'', JBool False), (''include_docs'', JBool False),
                (''limit'', JNum 1), (''key'', JArr key)]) (store w) = (Inr \<lparr>rows = take 1 M\<rparr>, s1)"
  then show "fst (exists dao viewName key w) = Inr (JBool (M \<noteq> []))"
    by (cases M) (simp_all add: exists_answer)
next
  assume a: "typeof viewName = ''string'' \<and> truthy viewName \<and> key \<noteq> [] \<and> 2 \<le> length M
    \<and> db_partitionedView (db dao) (dao_type dao) (dao_type dao) viewName
         (JObj [(''reduce'', JBool False), (''include_docs'', JBool False),
                (''limit'', JNum 1), (''key'', JArr key)]) (store w) = (Inr \<lparr>rows = take 1 M\<rparr>, s1)
    \<and> db_partitionedView (db dao) (dao_type dao) (dao_type dao) viewName
         (JObj [(''reduce'', JBool False), (''include_docs'', JBool True),
                (''limit'', JNum 2), (''key'', JArr key)]) (store w) = (Inr \<lparr>rows = take 2 M\<rparr>, s2)"
  then obtain x y zs where M: "M = x # y # zs"
    by (cases M; cases "tl M") auto
  from a show "fst (exists dao viewName key w) = Inr (JBool True)"
    by (simp add: exists_answer M)
  from a show "fst (findOne dao viewName key w) = Inl (AssertionError ''key is not unique'')"
    by (simp add: findOne_answer M)
qed

theorem exists_true_iff_row_witness:
  "exists (widget_dao [row_known_1]) (JStr ''by-name'') [JStr ''known-1''] w0
     = (Inr (JBool True),
        \<lparr>store = (), calls = [PartitionedView ''WIDGET'' ''WIDGET'' (JStr ''by-name'')
           (JObj [(''reduce'', JBool False), (''include_docs'', JBool False),
                  (''limit'', JNum 1), (''key'', JArr [JStr ''known-1''])])]\<rparr>)
   \<and> fst (exists (widget_dao []) (JStr ''by-name'') [JStr ''no-widget-by-this-name''] w0)
       = Inr (JBool False)
   \<and> fst (exists (widget_dao [row_known_1, row_known_2]) (JStr ''by-status'') [JStr ''ACTIVE''] w0)
       = Inr (JBool True)
   \<and> fst (findOne (widget_dao [row_known_1, row_known_2]) (JStr ''by-status'') [JStr ''ACTIVE''] w0)
       = Inl (AssertionError ''key is not unique'')"
proof -
  note c1 = exists_true_iff_row [THEN conjunct1, rule_format]
  note c2 = exists_true_iff_row [THEN conjunct2, THEN conjunct1, rule_format]
  note c3 = exists_true_iff_row [THEN conjunct2, THEN conjunct2, rule_format]
  have l1: "view_answer M (JObj [(''reduce'', JBool False), (''include_docs'', JBool False),
              (''limit'', JNum 1), (''key'', k)]) = take 1 M" for M k
    using view_answer_limit [of M "JBool False" 1 k] by simp
  have l2: "view_answer M (JObj [(''reduce'', JBool False), (''include_docs'', JBool True),
              (''limit'', JNum 2), (''key'', k)]) = take 2 M" for M k
    using view_answer_limit [of M "JBool True" 2 k] by simp
  have a1: "exists (widget_dao [row_known_1]) (JStr ''by-name'') [JStr ''known-1''] w0
     = (Inr (JBool True),
        \<lparr>store = (), calls = [PartitionedView ''WIDGET'' ''WIDGET'' (JStr ''by-name'')
           (JObj [(''reduce'', JBool False), (''include_docs'', JBool False),
                  (''limit'', JNum 1), (''key'', JArr [JStr ''known-1''])])]\<rparr>)"
    using c1 [of "JStr ''by-name''" "[JStr ''known-1'']" "widget_dao [row_known_1]" w0
        "\<lparr>rows = [row_known_1]\<rparr>" "()"]
    by (simp add: widget_view l1) (simp add: widget_dao_def w0_def)
  have a2: "fst (exists (widget_dao []) (JStr ''by-name'') [JStr ''no-widget-by-this-name''] w0)
       = Inr (JBool False)"
    using c2 [of "JStr ''by-name''" "[JStr ''no-widget-by-this-name'']" "widget_dao []" w0 "[]" "()"]
    by (simp add: widget_view l1)
  have a3: "fst (exists (widget_dao [row_known_1, row_known_2]) (JStr ''by-status'') [JStr ''ACTIVE''] w0)
       = Inr (JBool True)
     \<and> fst (findOne (widget_dao [row_known_1, row_known_2]) (JStr ''by-status'') [JStr ''ACTIVE''] w0)
       = Inl (AssertionError ''key is not unique'')"
    using c3 [of "JStr ''by-status''" "[JStr ''ACTIVE'']" "[row_known_1, row_known_2]"
        "widget_dao [row_known_1, row_known_2]" w0 "()" "()"]
    by (simp add: widget_view l1 l2)
  from a1 a2 a3 show ?thesis by blast
qed

section \<open>Assertion failures and the store\<close>

lemma seq_lift: "seq (lift r) f = (case r of Inl e \<Rightarrow> throw e | Inr x \<Rightarrow> f x)"
  by (cases r) (simp_all add: seq_lift_Inl seq_lift_Inr)

lemma seq_assert_string:
  "seq (assert_string v m) f =
     (if typeof v = ''string'' \<and> truthy v then f (case v of JStr s \<Rightarrow> s)
      else throw (AssertionError m))"
  by (simp add: assert_string_iff seq_return seq_throw)

lemma await_store_no_assertion: "await_store c g w \<noteq> (Inl (AssertionError m), w')"
  by (auto simp: await_store_def split: prod.splits sum.splits)

lemma seq_await_store_return:
  "seq (await_store c g) (\<lambda>x. return (h x)) w \<noteq> (Inl (AssertionError m), w')"
  by (auto simp: seq_def await_store_def return_def split: prod.splits sum.splits)

lemma await_store_calls:
  "await_store c g w = (r, w') \<Longrightarrow> calls w' = calls w @ [c]"
  by (auto simp: await_store_def split: prod.splits sum.splits)

lemma create_assertion_before_store:
  assumes "create dao doc w = (Inl (AssertionError m), w')"
  shows "w' = w"
  using assms
  by (simp add: create_def seq_lift seq_assert throw_def seq_await_store_return
      split: if_splits sum.splits)

lemma update_assertion_before_store:
  assumes "update dao id' doc w = (Inl (AssertionError m), w')"
  shows "w' = w"
  using assms
  by (simp add: update_def seq_assert_string seq_lift seq_assert throw_def seq_await_store_return
      split: if_splits sum.splits)

lemma delete_assertion_before_store:
  assumes "delete dao id' doc w = (Inl (AssertionError m), w')"
  shows "w' = w"
  using assms
  by (simp add: delete_def seq_assert_string seq_lift seq_assert throw_def await_store_no_assertion
      split: if_splits sum.splits)

lemma findOne_assertion:
  assumes "findOne dao viewName key w = (Inl (AssertionError m), w')"
  shows "(m \<noteq> ''key is not unique'' \<longrightarrow> w' = w)
       \<and> (m = ''key is not unique'' \<longrightarrow>
            calls w' = calls w @ [PartitionedView (dao_type dao) (dao_type dao) viewName
              (JObj [(''reduce'', JBool False), (''include_docs'', JBool True),
                     (''limit'', JNum 2), (''key'', JArr key)])])"
proof (cases "typeof viewName = ''string'' \<and> truthy viewName \<and> key \<noteq> []")
  case False
  with assms show ?thesis
    by (auto simp: findOne_def seq_assert throw_def split: if_splits)
next
  case True
  obtain r s' where pv: "db_partitionedView (db dao) (dao_type dao) (dao_type dao) viewName
        (JObj [(''reduce'', JBool False), (''include_docs'', JBool True),
               (''limit'', JNum 2), (''key'', JArr key)]) (store w) = (r, s')"
    by (cases "db_partitionedView (db dao) (dao_type dao) (dao_type dao) viewName
        (JObj [(''reduce'', JBool False), (''include_docs'', JBool True),
               (''limit'', JNum 2), (''key'', JArr key)]) (store w)")
  show ?thesis
  proof (cases r)
    case (Inl e)
    with True pv assms show ?thesis
      by (simp add: findOne_def seq_assert seq_def [of "partitionedView dao v opts" for v opts]
          partitionedView_Inl)
  next
    case (Inr res)
    with True pv assms show ?thesis
      by (auto simp: findOne_answer split: if_splits)
  qed
qed

lemma findOne_bad_view:
  "\<not> (typeof viewName = ''string'' \<and> truthy viewName) \<Longrightarrow>
     findOne dao viewName key w = (Inl (AssertionError ''invalid view''), w)"
  by (auto simp: findOne_def seq_assert throw_def)

lemma findOne_bad_key:
  "typeof viewName = ''string'' \<and> truthy viewName \<Longrightarrow> key = [] \<Longrightarrow>
     findOne dao viewName key w = (Inl (AssertionError ''invalid key''), w)"
  by (auto simp: findOne_def seq_assert throw_def)

text \<open>
  C9. When \<^verbatim>\<open>create\<close>, \<^verbatim>\<open>update\<close>, \<^verbatim>\<open>delete\<close> or \<^verbatim>\<open>findOne\<close> fails with an
  assertion error about its arguments or its document (InvalidArgument,
  InvalidDocument, AlreadyExists, IdentityMismatch or PreconditionFailed), the
  store has not been called: the world is as it was. On bad arguments (a view name
  that is not a string with at least one character, or a key with no component)
  \<^verbatim>\<open>findOne\<close> fails with \<^verbatim>\<open>invalid view\<close> or \<^verbatim>\<open>invalid key\<close> before any store
  call, and not with \<^verbatim>\<open>key is not unique\<close> (NotUnique), which arises only from
  the rows of an answer, after the one query of the view.
\<close>

theorem assertion_errors_before_store:
  "(create dao doc w = (Inl (AssertionError m), w') \<longrightarrow> w' = w)
   \<and> (update dao id' doc w = (Inl (AssertionError m), w') \<longrightarrow> w' = w)
   \<and> (delete dao id' doc w = (Inl (AssertionError m), w') \<longrightarrow> w' = w)
   \<and> (findOne dao viewName key w = (Inl (AssertionError m), w') \<and> m \<noteq> ''key is not unique''
        \<longrightarrow> w' = w)
   \<and> (findOne dao viewName key w = (Inl (AssertionError ''key is not unique''), w')
        \<longrightarrow> calls w' = calls w @ [PartitionedView (dao_type dao) (dao_type dao) viewName
              (JObj [(''reduce'', JBool False), (''include_docs'', JBool True),
                     (''limit'', JNum 2), (''key'', JArr key)])])
   \<and> (\<not> (typeof viewName = ''string'' \<and> truthy viewName)
        \<longrightarrow> findOne dao viewName key w = (Inl (AssertionError ''invalid view''), w))
   \<and> (typeof viewName = ''string'' \<and> truthy viewName \<and> key = []
        \<longrightarrow> findOne dao viewName key w = (Inl (AssertionError ''invalid key''), w))"
  using findOne_bad_view [of viewName dao key w] findOne_bad_key [of viewName key dao w]
    create_assertion_before_store [of dao doc w m w']
    update_assertion_before_store [of dao id' doc w m w']
    delete_assertion_before_store [of dao id' doc w m w']
    findOne_assertion [of dao viewName key w m w']
    findOne_assertion [of dao viewName key w "''key is not unique''" w']
  by blast

lemma findOne_not_unique_run:
  "findOne (widget_dao [row_known_1, row_known_2]) (JStr ''by-status'') [JStr ''ACTIVE''] w0
     = (Inl (AssertionError ''key is not unique''),
        \<lparr>store = (), calls = [PartitionedView ''WIDGET'' ''WIDGET'' (JStr ''by-status'')
           (JObj [(''reduce'', JBool False), (''include_docs'', JBool True),
                  (''limit'', JNum 2), (''key'', JArr [JStr ''ACTIVE''])])]\<rparr>)"
proof -
  have l: "view_answer M (JObj [(''reduce'', JBool False), (''include_docs'', JBool True),
              (''limit'', JNum 2), (''key'', k)]) = take 2 M" for M k
    using view_answer_limit [of M "JBool True" 2 k] by simp
  have "db_partitionedView (db (widget_dao [row_known_1, row_known_2]))
          (dao_type (widget_dao [row_known_1, row_known_2]))
          (dao_type (widget_dao [row_known_1, row_known_2])) (JStr ''by-status'')
          (JObj [(''reduce'', JBool False), (''include_docs'', JBool True),
                 (''limit'', JNum 2), (''key'', JArr [JStr ''ACTIVE''])]) (store w0)
        = (Inr \<lparr>rows = [row_known_1, row_known_2]\<rparr>, ())"
    by (simp add: widget_view l)
  then show ?thesis
    by (simp add: findOne_answer) (simp add: widget_dao_def w0_def)
qed

lemma create_empty_run:
  "create (widget_dao M) (JObj []) w0 = (Inl (AssertionError ''invalid document''), w0)"
  by (simp add: create_def validate_empty seq_lift_Inr seq_assert valid_errors throw_def)

theorem assertion_errors_before_store_witness:
  "create (widget_dao []) (JObj []) w0 = (Inl (AssertionError ''invalid document''), w0)
   \<and> snd (create (widget_dao []) (JObj []) w0) = w0
   \<and> fst (update (widget_dao []) (JStr ''test-2'') doc_test_1 w0)
       = Inl (AssertionError ''document id mismatch'')
   \<and> snd (update (widget_dao []) (JStr ''test-2'') doc_test_1 w0) = w0
   \<and> fst (delete (widget_dao []) (JStr ''test-1'') doc_test_1_new w0)
       = Inl (AssertionError ''document must already exist'')
   \<and> snd (delete (widget_dao []) (JStr ''test-1'') doc_test_1_new w0) = w0
   \<and> findOne (widget_dao []) (JNum 123) [JStr ''ACTIVE''] w0
       = (Inl (AssertionError ''invalid view''), w0)
   \<and> snd (findOne (widget_dao []) (JNum 123) [JStr ''ACTIVE''] w0) = w0
   \<and> findOne (widget_dao []) (JStr ''by-name'') [] w0
       = (Inl (AssertionError ''invalid key''), w0)
   \<and> fst (findOne (widget_dao [row_known_1, row_known_2]) (JStr ''by-status'') [JStr ''ACTIVE''] w0)
       = Inl (AssertionError ''key is not unique'')
   \<and> calls (snd (findOne (widget_dao [row_known_1, row_known_2]) (JStr ''by-status'')
                   [JStr ''ACTIVE''] w0))
       = [PartitionedView ''WIDGET'' ''WIDGET'' (JStr ''by-status'')
           (JObj [(''reduce'', JBool False), (''include_docs'', JBool True),
                  (''limit'', JNum 2), (''key'', JArr [JStr ''ACTIVE''])])]"
proof -
  note c1 = assertion_errors_before_store [THEN conjunct1, rule_format]
  note c2 = assertion_errors_before_store [THEN conjunct2, THEN conjunct1, rule_format]
  note c3 = assertion_errors_before_store [THEN conjunct2, THEN conjunct2, THEN conjunct1, rule_format]
  note c4 = assertion_errors_before_store [THEN conjunct2, THEN conjunct2, THEN conjunct2,
      THEN conjunct1, rule_format]
  note c5 = assertion_errors_before_store [THEN conjunct2, THEN conjunct2, THEN conjunct2,
      THEN conjunct2, THEN conjunct1, rule_format]
  note c6 = assertion_errors_before_store [THEN conjunct2, THEN conjunct2, THEN conjunct2,
      THEN conjunct2, THEN conjunct2, THEN conjunct1, rule_format]
  note c7 = assertion_errors_before_store [THEN conjunct2, THEN conjunct2, THEN conjunct2,
      THEN conjunct2, THEN conjunct2, THEN conjunct2, rule_format]
  have h1: "create (widget_dao []) (JObj []) w0 = (Inl (AssertionError ''invalid document''), w0)"
    by (rule create_empty_run)
  have a1: "snd (create (widget_dao []) (JObj []) w0) = w0"
    by (rule c1 [where dao = "widget_dao []" and doc = "JObj []" and m = "''invalid document''"])
       (simp add: h1)
  have h2: "fst (update (widget_dao []) (JStr ''test-2'') doc_test_1 w0)
       = Inl (AssertionError ''document id mismatch'')"
    using update_mismatch [of "''test-2''" "widget_dao []" doc_test_1 "\<lparr>errors = []\<rparr>" w0]
    by (simp add: validate_doc_test_1 valid_errors)
       (simp add: doc_test_1_def lookup_def widget_dao_def)
  have a2: "snd (update (widget_dao []) (JStr ''test-2'') doc_test_1 w0) = w0"
    by (rule c2 [where dao = "widget_dao []" and id' = "JStr ''test-2''" and doc = doc_test_1
          and m = "''document id mismatch''"])
       (simp add: h2 [symmetric])
  have h3: "fst (delete (widget_dao []) (JStr ''test-1'') doc_test_1_new w0)
       = Inl (AssertionError ''document must already exist'')"
    by (simp add: delete_def assert_string_JStr seq_return seq_lift_Inr seq_assert throw_def
        doc_test_1_new_def lookup_def widget_dao_def)
  have a3: "snd (delete (widget_dao []) (JStr ''test-1'') doc_test_1_new w0) = w0"
    by (rule c3 [where dao = "widget_dao []" and id' = "JStr ''test-1''" and doc = doc_test_1_new
          and m = "''document must already exist''"])
       (simp add: h3 [symmetric])
  have h4: "findOne (widget_dao []) (JNum 123) [JStr ''ACTIVE''] w0
       = (Inl (AssertionError ''invalid view''), w0)"
    by (rule c6) simp
  have h6: "findOne (widget_dao []) (JStr ''by-name'') [] w0
       = (Inl (AssertionError ''invalid key''), w0)"
    by (rule c7) simp
  have a4: "snd (findOne (widget_dao []) (JNum 123) [JStr ''ACTIVE''] w0) = w0"
    by (rule c4 [where dao = "widget_dao []" and viewName = "JNum 123" and key = "[JStr ''ACTIVE'']"
          and m = "''invalid view''"])
       (simp add: h4)
  have h5: "fst (findOne (widget_dao [row_known_1, row_known_2]) (JStr ''by-status'')
                   [JStr ''ACTIVE''] w0) = Inl (AssertionError ''key is not unique'')"
    by (simp add: findOne_not_unique_run)
  have "calls (snd (findOne (widget_dao [row_known_1, row_known_2]) (JStr ''by-status'')
                   [JStr ''ACTIVE''] w0))
       = calls w0 @ [PartitionedView (dao_type (widget_dao [row_known_1, row_known_2]))
           (dao_type (widget_dao [row_known_1, row_known_2])) (JStr ''by-status'')
           (JObj [(''reduce'', JBool False), (''include_docs'', JBool True),
                  (''limit'', JNum 2), (''key'', JArr [JStr ''ACTIVE''])])]"
    by (rule c5 [where dao = "widget_dao [row_known_1, row_known_2]"])
       (simp add: h5 [symmetric])
  then have a5: "calls (snd (findOne (widget_dao [row_known_1, row_known_2]) (JStr ''by-status'')
                   [JStr ''ACTIVE''] w0))
       = [PartitionedView ''WIDGET'' ''WIDGET'' (JStr ''by-status'')
           (JObj [(''reduce'', JBool False), (''include_docs'', JBool True),
                  (''limit'', JNum 2), (''key'', JArr [JStr ''ACTIVE''])])]"
    by (simp add: widget_dao_def w0_def)
  from h1 a1 h2 a2 h3 a3 h4 a4 h6 h5 a5 show ?thesis by blast
qed

section \<open>touch\<close>

lemmas touch_eval =
  touch_def seq_def load_def load_prop_def store_prop_def Date_now_def assert_def
  return_def throw_def typeof_undefined

lemma touch_first:
  assumes "heap e a = JObj fs" "lookup fs ''c_by'' = JUndefined" "u \<noteq> []"
  shows "touch a (JStr u) e =
    (Inr a,
     \<lparr>heap = (heap e)(a := JObj (put ''m_at'' (epoch_seconds (clock e 1))
                (put ''m_by'' (JStr u)
                (put ''c_at'' (epoch_seconds (clock e 0))
                (put ''c_by'' (JStr u) fs))))),
      clock = (\<lambda>n. clock e (Suc (Suc n)))\<rparr>)"
  using assms by (simp add: touch_eval)

lemma touch_again:
  assumes "heap e a = JObj fs" "lookup fs ''c_by'' \<noteq> JUndefined" "u \<noteq> []"
  shows "touch a (JStr u) e =
    (Inr a,
     \<lparr>heap = (heap e)(a := JObj (put ''m_at'' (epoch_seconds (clock e 0))
                (put ''m_by'' (JStr u) fs))),
      clock = (\<lambda>n. clock e (Suc n))\<rparr>)"
  using assms by (simp add: touch_eval)

lemma touch_result:
  assumes "heap e a = JObj fs" "u \<noteq> []"
  shows "\<exists>fs' n. touch a (JStr u) e = (Inr a, \<lparr>heap = (heap e)(a := JObj fs'), clock = (\<lambda>i. clock e (i + Suc n))\<rparr>)
           \<and> n \<le> 1
           \<and> lookup fs' ''m_by'' = JStr u
           \<and> lookup fs' ''m_at'' = epoch_seconds (clock e n)
           \<and> lookup fs' ''c_by'' = (if lookup fs ''c_by'' = JUndefined then JStr u else lookup fs ''c_by'')
           \<and> lookup fs' ''c_at'' =
                (if lookup fs ''c_by'' = JUndefined then epoch_seconds (clock e 0) else lookup fs ''c_at'')
           \<and> (\<forall>k. k \<notin> {''c_by'', ''c_at'', ''m_by'', ''m_at''} \<longrightarrow> lookup fs' k = lookup fs k)"
proof (cases "lookup fs ''c_by'' = JUndefined")
  case True
  show ?thesis
    apply (rule exI [of _ "put ''m_at'' (epoch_seconds (clock e 1))
                (put ''m_by'' (JStr u)
                (put ''c_at'' (epoch_seconds (clock e 0))
                (put ''c_by'' (JStr u) fs)))"])
    apply (rule exI [of _ 1])
    apply (simp add: touch_first [OF assms(1) True assms(2)] lookup_put True)
    done
next
  case False
  show ?thesis
    apply (rule exI [of _ "put ''m_at'' (epoch_seconds (clock e 0)) (put ''m_by'' (JStr u) fs)"])
    apply (rule exI [of _ 0])
    apply (simp add: touch_again [OF assms(1) False assms(2)] lookup_put False)
    done
qed

subsection \<open>touch on an empty document\<close>

text \<open>
  C3 (as amended). \<^verbatim>\<open>touch\<close> applied to the empty document with the user name
  \<^verbatim>\<open>alice\<close> returns the document it was given, which then holds
  \<^verbatim>\<open>c_by: "alice"\<close>, \<^verbatim>\<open>c_at: T1\<close>, \<^verbatim>\<open>m_by: "alice"\<close>, \<^verbatim>\<open>m_at: T2\<close>, where \<open>T1\<close> and
  \<open>T2\<close> are the epoch seconds of two successive readings of the clock, the first
  taken for \<^verbatim>\<open>c_at\<close> and the second for \<^verbatim>\<open>m_at\<close>. They are the same integer when
  both readings fall within the same second.
\<close>

theorem touch_empty_document:
  "(heap e a = JObj []
      \<longrightarrow> (\<exists>e'. touch a (JStr ''alice'') e = (Inr a, e')
             \<and> heap e' a = JObj [(''c_by'', JStr ''alice''),
                                 (''c_at'', JNum (of_int (clock e 0 div 1000))),
                                 (''m_by'', JStr ''alice''),
                                 (''m_at'', JNum (of_int (clock e 1 div 1000)))]))
   \<and> (heap e a = JObj [] \<and> clock e 0 div 1000 = clock e 1 div 1000
      \<longrightarrow> (\<exists>e'. touch a (JStr ''alice'') e = (Inr a, e')
             \<and> heap e' a = JObj [(''c_by'', JStr ''alice''),
                                 (''c_at'', JNum (of_int (clock e 0 div 1000))),
                                 (''m_by'', JStr ''alice''),
                                 (''m_at'', JNum (of_int (clock e 0 div 1000)))]))"
proof -
  have "touch a (JStr ''alice'') e =
    (Inr a,
     \<lparr>heap = (heap e)(a := JObj [(''c_by'', JStr ''alice''),
                                 (''c_at'', JNum (of_int (clock e 0 div 1000))),
                                 (''m_by'', JStr ''alice''),
                                 (''m_at'', JNum (of_int (clock e 1 div 1000)))]),
      clock = (\<lambda>n. clock e (Suc (Suc n)))\<rparr>)"
    if "heap e a = JObj []"
    using touch_first [OF that, of "''alice''"] by (simp add: lookup_def epoch_seconds_def)
  then show ?thesis by auto
qed

theorem touch_empty_document_witness:
  "heap (touch_env 1700000000123) 0 = JObj []
   \<and> clock (touch_env 1700000000123) 0 div 1000 = clock (touch_env 1700000000123) 1 div 1000
   \<and> fst (touch 0 (JStr ''alice'') (touch_env 1700000000123)) = Inr 0
   \<and> heap (snd (touch 0 (JStr ''alice'') (touch_env 1700000000123))) 0
       = JObj [(''c_by'', JStr ''alice''), (''c_at'', JNum 1700000000),
               (''m_by'', JStr ''alice''), (''m_at'', JNum 1700000000)]"
proof -
  have h: "heap (touch_env 1700000000123) 0 = JObj []"
    by (simp add: touch_env_def)
  have c: "clock (touch_env 1700000000123) 0 div 1000 = clock (touch_env 1700000000123) 1 div 1000"
    by (simp add: touch_env_def clock_from_def)
  have t: "clock (touch_env 1700000000123) 0 div 1000 = 1700000000"
    by (simp add: touch_env_def clock_from_def)
  from touch_empty_document [THEN conjunct2, rule_format, of "touch_env 1700000000123" 0] h c
  obtain e' where "touch 0 (JStr ''alice'') (touch_env 1700000000123) = (Inr 0, e')"
    and "heap e' 0 = JObj [(''c_by'', JStr ''alice''),
           (''c_at'', JNum (of_int (clock (touch_env 1700000000123) 0 div 1000))),
           (''m_by'', JStr ''alice''),
           (''m_at'', JNum (of_int (clock (touch_env 1700000000123) 0 div 1000)))]"
    by blast
  with h c show ?thesis by (simp add: t)
qed

text \<open>
  The claim as stated has \<^verbatim>\<open>c_at\<close> and \<^verbatim>\<open>m_at\<close> equal. They differ when a second
  boundary passes between the two readings of the clock: here the readings are
  1699999999999 and 1700000000000 milliseconds.
\<close>

theorem touch_across_second_counterexample:
  "heap (touch_env 1699999999999) 0 = JObj []
   \<and> fst (touch 0 (JStr ''alice'') (touch_env 1699999999999)) = Inr 0
   \<and> heap (snd (touch 0 (JStr ''alice'') (touch_env 1699999999999))) 0
       = JObj [(''c_by'', JStr ''alice''), (''c_at'', JNum 1699999999),
               (''m_by'', JStr ''alice''), (''m_at'', JNum 1700000000)]"
proof -
  have h: "heap (touch_env 1699999999999) 0 = JObj []"
    by (simp add: touch_env_def)
  have "lookup [] ''c_by'' = JUndefined"
    by (simp add: lookup_def)
  from touch_first [OF h this, of "''alice''"] h show ?thesis
    by (simp add: epoch_seconds_def) (simp add: touch_env_def clock_from_def)
qed

subsection \<open>touch applied twice\<close>

lemma touch_twice_run:
  assumes h: "heap e a = JObj fs" and u1: "u1 \<noteq> []" and u2: "u2 \<noteq> []"
  shows "\<exists>e1 e2. touch a (JStr u1) e = (Inr a, e1) \<and> touch a (JStr u2) e1 = (Inr a, e2)
             \<and> (lookup fs ''c_by'' = JUndefined \<longrightarrow>
                  get_prop (heap e1 a) ''c_by'' = Inr (JStr u1)
                  \<and> get_prop (heap e1 a) ''c_at'' = Inr (JNum (of_int (clock e 0 div 1000))))
             \<and> get_prop (heap e2 a) ''c_by'' = get_prop (heap e1 a) ''c_by''
             \<and> get_prop (heap e2 a) ''c_at'' = get_prop (heap e1 a) ''c_at''
             \<and> get_prop (heap e2 a) ''m_by'' = Inr (JStr u2)
             \<and> get_prop (heap e1 a) ''m_at''
                 = Inr (JNum (of_int (clock e (if lookup fs ''c_by'' = JUndefined then 1 else 0) div 1000)))
             \<and> get_prop (heap e2 a) ''m_at''
                 = Inr (JNum (of_int (clock e (if lookup fs ''c_by'' = JUndefined then 2 else 1) div 1000)))"
proof (cases "lookup fs ''c_by'' = JUndefined")
  case True
  let ?fs1 = "put ''m_at'' (epoch_seconds (clock e 1))
                (put ''m_by'' (JStr u1)
                (put ''c_at'' (epoch_seconds (clock e 0))
                (put ''c_by'' (JStr u1) fs)))"
  let ?e1 = "\<lparr>heap = (heap e)(a := JObj ?fs1), clock = (\<lambda>n. clock e (Suc (Suc n)))\<rparr>"
  have t1: "touch a (JStr u1) e = (Inr a, ?e1)"
    by (rule touch_first [OF h True u1])
  have h1: "heap ?e1 a = JObj ?fs1" by simp
  have nb: "lookup ?fs1 ''c_by'' \<noteq> JUndefined"
    by (simp add: lookup_put)
  let ?e2 = "\<lparr>heap = (heap ?e1)(a := JObj (put ''m_at'' (epoch_seconds (clock ?e1 0))
                (put ''m_by'' (JStr u2) ?fs1))),
              clock = (\<lambda>i. clock ?e1 (Suc i))\<rparr>"
  have t2: "touch a (JStr u2) ?e1 = (Inr a, ?e2)"
    by (rule touch_again [OF h1 nb u2])
  show ?thesis
    apply (rule exI [of _ ?e1])
    apply (rule exI [of _ ?e2])
    apply (simp only: t1 t2 simp_thms)
    apply (simp add: lookup_put True epoch_seconds_def numeral_2_eq_2)
    done
next
  case False
  let ?fs1 = "put ''m_at'' (epoch_seconds (clock e 0)) (put ''m_by'' (JStr u1) fs)"
  let ?e1 = "\<lparr>heap = (heap e)(a := JObj ?fs1), clock = (\<lambda>n. clock e (Suc n))\<rparr>"
  have t1: "touch a (JStr u1) e = (Inr a, ?e1)"
    by (rule touch_again [OF h False u1])
  have h1: "heap ?e1 a = JObj ?fs1" by simp
  have nb: "lookup ?fs1 ''c_by'' \<noteq> JUndefined"
    using False by (simp add: lookup_put)
  let ?e2 = "\<lparr>heap = (heap ?e1)(a := JObj (put ''m_at'' (epoch_seconds (clock ?e1 0))
                (put ''m_by'' (JStr u2) ?fs1))),
              clock = (\<lambda>i. clock ?e1 (Suc i))\<rparr>"
  have t2: "touch a (JStr u2) ?e1 = (Inr a, ?e2)"
    by (rule touch_again [OF h1 nb u2])
  show ?thesis
    apply (rule exI [of _ ?e1])
    apply (rule exI [of _ ?e2])
    apply (simp only: t1 t2 simp_thms)
    apply (simp add: lookup_put False epoch_seconds_def)
    done
qed

text \<open>
  C8 (as amended). Two calls of \<^verbatim>\<open>touch\<close> on the same document, with the user
  names \<open>u1\<close> and then \<open>u2\<close>: the second call leaves \<^verbatim>\<open>c_by\<close> and \<^verbatim>\<open>c_at\<close> as
  they stood after the first (which set them when the document had no \<^verbatim>\<open>c_by\<close>),
  and sets \<^verbatim>\<open>m_by\<close> to \<open>u2\<close>. Each call sets \<^verbatim>\<open>m_at\<close> to the epoch seconds of
  the last clock reading it takes, the second call reading the clock after the
  first. The \<^verbatim>\<open>m_at\<close> of the second call is greater than or equal to the one the
  first call left provided the clock has not been set back between these two
  readings.
\<close>

theorem touch_twice:
  "(heap e a = JObj fs \<and> u1 \<noteq> [] \<and> u2 \<noteq> []
      \<longrightarrow> (\<exists>e1 e2. touch a (JStr u1) e = (Inr a, e1) \<and> touch a (JStr u2) e1 = (Inr a, e2)
             \<and> (lookup fs ''c_by'' = JUndefined \<longrightarrow>
                  get_prop (heap e1 a) ''c_by'' = Inr (JStr u1)
                  \<and> get_prop (heap e1 a) ''c_at'' = Inr (JNum (of_int (clock e 0 div 1000))))
             \<and> get_prop (heap e2 a) ''c_by'' = get_prop (heap e1 a) ''c_by''
             \<and> get_prop (heap e2 a) ''c_at'' = get_prop (heap e1 a) ''c_at''
             \<and> get_prop (heap e2 a) ''m_by'' = Inr (JStr u2)
             \<and> get_prop (heap e1 a) ''m_at''
                 = Inr (JNum (of_int (clock e (if lookup fs ''c_by'' = JUndefined then 1 else 0) div 1000)))
             \<and> get_prop (heap e2 a) ''m_at''
                 = Inr (JNum (of_int (clock e (if lookup fs ''c_by'' = JUndefined then 2 else 1) div 1000)))))
   \<and> (heap e a = JObj fs \<and> u1 \<noteq> [] \<and> u2 \<noteq> []
       \<and> clock e (if lookup fs ''c_by'' = JUndefined then 1 else 0)
           \<le> clock e (if lookup fs ''c_by'' = JUndefined then 2 else 1)
      \<longrightarrow> (\<exists>e1 e2 t1 t2. touch a (JStr u1) e = (Inr a, e1) \<and> touch a (JStr u2) e1 = (Inr a, e2)
             \<and> t1 = clock e (if lookup fs ''c_by'' = JUndefined then 1 else 0) div 1000
             \<and> t2 = clock e (if lookup fs ''c_by'' = JUndefined then 2 else 1) div 1000
             \<and> get_prop (heap e1 a) ''m_at'' = Inr (JNum (of_int t1))
             \<and> get_prop (heap e2 a) ''m_at'' = Inr (JNum (of_int t2))
             \<and> t1 \<le> t2))"
proof (intro conjI impI)
  assume "heap e a = JObj fs \<and> u1 \<noteq> [] \<and> u2 \<noteq> []"
  then show "\<exists>e1 e2. touch a (JStr u1) e = (Inr a, e1) \<and> touch a (JStr u2) e1 = (Inr a, e2)
             \<and> (lookup fs ''c_by'' = JUndefined \<longrightarrow>
                  get_prop (heap e1 a) ''c_by'' = Inr (JStr u1)
                  \<and> get_prop (heap e1 a) ''c_at'' = Inr (JNum (of_int (clock e 0 div 1000))))
             \<and> get_prop (heap e2 a) ''c_by'' = get_prop (heap e1 a) ''c_by''
             \<and> get_prop (heap e2 a) ''c_at'' = get_prop (heap e1 a) ''c_at''
             \<and> get_prop (heap e2 a) ''m_by'' = Inr (JStr u2)
             \<and> get_prop (heap e1 a) ''m_at''
                 = Inr (JNum (of_int (clock e (if lookup fs ''c_by'' = JUndefined then 1 else 0) div 1000)))
             \<and> get_prop (heap e2 a) ''m_at''
                 = Inr (JNum (of_int (clock e (if lookup fs ''c_by'' = JUndefined then 2 else 1) div 1000)))"
    using touch_twice_run [of e a fs u1 u2] by simp
next
  assume a: "heap e a = JObj fs \<and> u1 \<noteq> [] \<and> u2 \<noteq> []
       \<and> clock e (if lookup fs ''c_by'' = JUndefined then 1 else 0)
           \<le> clock e (if lookup fs ''c_by'' = JUndefined then 2 else 1)"
  then obtain e1 e2 where r: "touch a (JStr u1) e = (Inr a, e1)" "touch a (JStr u2) e1 = (Inr a, e2)"
    "get_prop (heap e1 a) ''m_at''
       = Inr (JNum (of_int (clock e (if lookup fs ''c_by'' = JUndefined then 1 else 0) div 1000)))"
    "get_prop (heap e2 a) ''m_at''
       = Inr (JNum (of_int (clock e (if lookup fs ''c_by'' = JUndefined then 2 else 1) div 1000)))"
    using touch_twice_run [of e a fs u1 u2] by blast
  from a have "clock e (if lookup fs ''c_by'' = JUndefined then 1 else 0) div 1000
       \<le> clock e (if lookup fs ''c_by'' = JUndefined then 2 else 1) div 1000"
    by (intro zdiv_mono1) simp_all
  with r show "\<exists>e1 e2 t1 t2. touch a (JStr u1) e = (Inr a, e1) \<and> touch a (JStr u2) e1 = (Inr a, e2)
             \<and> t1 = clock e (if lookup fs ''c_by'' = JUndefined then 1 else 0) div 1000
             \<and> t2 = clock e (if lookup fs ''c_by'' = JUndefined then 2 else 1) div 1000
             \<and> get_prop (heap e1 a) ''m_at'' = Inr (JNum (of_int t1))
             \<and> get_prop (heap e2 a) ''m_at'' = Inr (JNum (of_int t2))
             \<and> t1 \<le> t2"
    by blast
qed

theorem touch_twice_witness:
  "heap (touch_env 1700000000123) 0 = JObj []
   \<and> clock (touch_env 1700000000123) 1 \<le> clock (touch_env 1700000000123) 2
   \<and> (\<exists>e1 e2.
         touch 0 (JStr ''admin'') (touch_env 1700000000123) = (Inr 0, e1)
         \<and> touch 0 (JStr ''test'') e1 = (Inr 0, e2)
         \<and> get_prop (heap e1 0) ''c_by'' = Inr (JStr ''admin'')
         \<and> get_prop (heap e1 0) ''c_at'' = Inr (JNum 1700000000)
         \<and> get_prop (heap e2 0) ''c_by'' = Inr (JStr ''admin'')
         \<and> get_prop (heap e2 0) ''c_at'' = Inr (JNum 1700000000)
         \<and> get_prop (heap e2 0) ''m_by'' = Inr (JStr ''test'')
         \<and> get_prop (heap e1 0) ''m_at'' = Inr (JNum 1700000000)
         \<and> get_prop (heap e2 0) ''m_at'' = Inr (JNum 1700000000))
   \<and> (\<exists>e1 e2 t1 t2.
         touch 0 (JStr ''admin'') (touch_env 1700000000123) = (Inr 0, e1)
         \<and> touch 0 (JStr ''test'') e1 = (Inr 0, e2)
         \<and> get_prop (heap e1 0) ''m_at'' = Inr (JNum (of_int t1))
         \<and> get_prop (heap e2 0) ''m_at'' = Inr (JNum (of_int t2))
         \<and> t1 \<le> t2)"
proof -
  let ?e = "touch_env 1700000000123"
  have h: "heap ?e 0 = JObj []"
    by (simp add: touch_env_def)
  have m: "clock ?e 1 \<le> clock ?e 2"
    by (simp add: touch_env_def clock_from_def)
  have c: "clock ?e 0 div 1000 = 1700000000" "clock ?e (Suc 0) div 1000 = 1700000000"
    "clock ?e 2 div 1000 = 1700000000"
    by (simp_all add: touch_env_def clock_from_def)
  have l: "lookup [] ''c_by'' = JUndefined"
    by (simp add: lookup_def)
  from touch_twice [THEN conjunct1, rule_format, of ?e 0 "[]" "''admin''" "''test''"] h l
  obtain e1 e2 where 1: "touch 0 (JStr ''admin'') ?e = (Inr 0, e1)"
    and 2: "touch 0 (JStr ''test'') e1 = (Inr 0, e2)"
    and 3: "get_prop (heap e1 0) ''c_by'' = Inr (JStr ''admin'')"
      "get_prop (heap e1 0) ''c_at'' = Inr (JNum (of_int (clock ?e 0 div 1000)))"
      "get_prop (heap e2 0) ''c_by'' = get_prop (heap e1 0) ''c_by''"
      "get_prop (heap e2 0) ''c_at'' = get_prop (heap e1 0) ''c_at''"
      "get_prop (heap e2 0) ''m_by'' = Inr (JStr ''test'')"
      "get_prop (heap e1 0) ''m_at'' = Inr (JNum (of_int (clock ?e 1 div 1000)))"
      "get_prop (heap e2 0) ''m_at'' = Inr (JNum (of_int (clock ?e 2 div 1000)))"
    by auto
  from 1 2 3 have a: "\<exists>e1 e2.
         touch 0 (JStr ''admin'') ?e = (Inr 0, e1)
         \<and> touch 0 (JStr ''test'') e1 = (Inr 0, e2)
         \<and> get_prop (heap e1 0) ''c_by'' = Inr (JStr ''admin'')
         \<and> get_prop (heap e1 0) ''c_at'' = Inr (JNum 1700000000)
         \<and> get_prop (heap e2 0) ''c_by'' = Inr (JStr ''admin'')
         \<and> get_prop (heap e2 0) ''c_at'' = Inr (JNum 1700000000)
         \<and> get_prop (heap e2 0) ''m_by'' = Inr (JStr ''test'')
         \<and> get_prop (heap e1 0) ''m_at'' = Inr (JNum 1700000000)
         \<and> get_prop (heap e2 0) ''m_at'' = Inr (JNum 1700000000)"
    by (simp add: c)
  from touch_twice [THEN conjunct2, rule_format, of ?e 0 "[]" "''admin''" "''test''"] h l m
  have b: "\<exists>e1 e2 t1 t2.
         touch 0 (JStr ''admin'') ?e = (Inr 0, e1)
         \<and> touch 0 (JStr ''test'') e1 = (Inr 0, e2)
         \<and> get_prop (heap e1 0) ''m_at'' = Inr (JNum (of_int t1))
         \<and> get_prop (heap e2 0) ''m_at'' = Inr (JNum (of_int t2))
         \<and> t1 \<le> t2"
    by auto
  from h m a b show ?thesis by blast
qed

text \<open>
  The claim as stated has the second \<^verbatim>\<open>m_at\<close> at least the first, whatever the
  clock does. \<^verbatim>\<open>Date.now()\<close> is the wall clock, and the second call overwrites
  \<^verbatim>\<open>m_at\<close> with what it reads: when the clock is set back between the calls
  (readings 1700000005000, 1700000005000 and then 1700000001000 milliseconds) the
  second \<^verbatim>\<open>m_at\<close> is smaller than the first.
\<close>

theorem touch_clock_set_back_counterexample:
  "heap touch_env_set_back 0 = JObj []
   \<and> fst (touch 0 (JStr ''admin'') touch_env_set_back) = Inr 0
   \<and> fst (touch 0 (JStr ''test'') (snd (touch 0 (JStr ''admin'') touch_env_set_back))) = Inr 0
   \<and> get_prop (heap (snd (touch 0 (JStr ''admin'') touch_env_set_back)) 0) ''m_at''
       = Inr (JNum 1700000005)
   \<and> get_prop (heap (snd (touch 0 (JStr ''test'')
         (snd (touch 0 (JStr ''admin'') touch_env_set_back)))) 0) ''m_at''
       = Inr (JNum 1700000001)"
proof -
  let ?e = touch_env_set_back
  have h: "heap ?e 0 = JObj []"
    by (simp add: touch_env_set_back_def)
  have c: "clock ?e (Suc 0) div 1000 = 1700000005" "clock ?e 2 div 1000 = 1700000001"
    by (simp_all add: touch_env_set_back_def clock_set_back_def)
  have l: "lookup [] ''c_by'' = JUndefined"
    by (simp add: lookup_def)
  from touch_twice_run [of ?e 0 "[]" "''admin''" "''test''"] h l
  obtain e1 e2 where 1: "touch 0 (JStr ''admin'') ?e = (Inr 0, e1)"
    and 2: "touch 0 (JStr ''test'') e1 = (Inr 0, e2)"
    and 3: "get_prop (heap e1 0) ''m_at'' = Inr (JNum (of_int (clock ?e 1 div 1000)))"
      "get_prop (heap e2 0) ''m_at'' = Inr (JNum (of_int (clock ?e 2 div 1000)))"
    by auto
  from h 1 2 3 show ?thesis
    by (simp add: c)
qed

subsection \<open>What touch leaves alone\<close>

text \<open>
  C10. For a document (a plain object) and a user name that is a string with at
  least one character, \<^verbatim>\<open>touch\<close> returns the object it was given; every field of
  it other than \<^verbatim>\<open>c_by\<close>, \<^verbatim>\<open>c_at\<close>, \<^verbatim>\<open>m_by\<close> and \<^verbatim>\<open>m_at\<close> reads as before, and no
  other object changes.
\<close>

theorem touch_frame:
  "heap e a = JObj fs \<and> u \<noteq> []
   \<longrightarrow> (\<exists>e'. touch a (JStr u) e = (Inr a, e')
          \<and> (\<forall>k. k \<notin> {''c_by'', ''c_at'', ''m_by'', ''m_at''}
                 \<longrightarrow> get_prop (heap e' a) k = get_prop (heap e a) k)
          \<and> (\<forall>b. b \<noteq> a \<longrightarrow> heap e' b = heap e b))"
proof
  assume a: "heap e a = JObj fs \<and> u \<noteq> []"
  then have h: "heap e a = JObj fs" and u: "u \<noteq> []"
    by simp_all
  from touch_result [OF h u] obtain fs' n where
    t: "touch a (JStr u) e =
          (Inr a, \<lparr>heap = (heap e)(a := JObj fs'), clock = (\<lambda>i. clock e (i + Suc n))\<rparr>)"
    and f: "\<forall>k. k \<notin> {''c_by'', ''c_at'', ''m_by'', ''m_at''} \<longrightarrow> lookup fs' k = lookup fs k"
    by blast
  show "\<exists>e'. touch a (JStr u) e = (Inr a, e')
          \<and> (\<forall>k. k \<notin> {''c_by'', ''c_at'', ''m_by'', ''m_at''}
                 \<longrightarrow> get_prop (heap e' a) k = get_prop (heap e a) k)
          \<and> (\<forall>b. b \<noteq> a \<longrightarrow> heap e' b = heap e b)"
    apply (rule exI [of _ "\<lparr>heap = (heap e)(a := JObj fs'), clock = (\<lambda>i. clock e (i + Suc n))\<rparr>"])
    apply (simp only: t simp_thms)
    using f apply (simp add: h)
    done
qed

theorem touch_frame_witness:
  "heap (touch_env 1700000000123) 1 = known_1
   \<and> fst (touch 1 (JStr ''test'') (touch_env 1700000000123)) = Inr 1
   \<and> get_prop (heap (snd (touch 1 (JStr ''test'') (touch_env 1700000000123))) 1) ''name''
       = Inr (JStr ''known-1'')
   \<and> get_prop (heap (snd (touch 1 (JStr ''test'') (touch_env 1700000000123))) 1) ''_id''
       = Inr (JStr ''WIDGET:known-1'')
   \<and> heap (snd (touch 1 (JStr ''test'') (touch_env 1700000000123))) 0 = JObj []"
proof -
  let ?e = "touch_env 1700000000123"
  have h: "heap ?e 1 = known_1"
    by (simp add: touch_env_def)
  have h': "heap ?e 1 = JObj [(''_id'', JStr ''WIDGET:known-1''), (''_rev'', JStr ''1-abc''),
                   (''name'', JStr ''known-1''), (''status'', JStr ''ACTIVE''),
                   (''c_by'', JStr ''admin''), (''c_at'', JNum 1700000000),
                   (''m_by'', JStr ''admin''), (''m_at'', JNum 1700000000)]"
    by (simp add: touch_env_def known_1_def)
  have h0: "heap ?e 0 = JObj []"
    by (simp add: touch_env_def)
  from touch_frame [rule_format, of ?e 1 _ "''test''"] h'
  obtain e' where t: "touch 1 (JStr ''test'') ?e = (Inr 1, e')"
    and f: "\<forall>k. k \<notin> {''c_by'', ''c_at'', ''m_by'', ''m_at''}
                 \<longrightarrow> get_prop (heap e' 1) k = get_prop (heap ?e 1) k"
    and o: "\<forall>b. b \<noteq> 1 \<longrightarrow> heap e' b = heap ?e b"
    by auto
  from f have "get_prop (heap e' 1) ''name'' = get_prop (heap ?e 1) ''name''"
    by simp
  moreover from f have "get_prop (heap e' 1) ''_id'' = get_prop (heap ?e 1) ''_id''"
    by simp
  moreover from o have "heap e' 0 = heap ?e 0"
    by simp
  ultimately show ?thesis
    using h t h0 by (simp add: known_1_def lookup_def)
qed

end
